theory Spec2Isabelle
  imports Complex_Main
begin

section \<open>The cuSPARSELt benchmark script (benchmark\_cusparselt.py)\<close>

text \<open>
  The script is a sequence of calls into the tensor framework, the operating system and
  pandas. Each such call is an event of a trace; what a call answers (whether it raises,
  the boolean of \<open>torch.allclose\<close>, an algorithm id, a median time) is not decided by the
  script, so it is read from a \<open>framework\<close>: an arbitrary function of the history of
  calls made so far. The script's own control flow (sequencing, the \<open>assert\<close>, the
  \<open>if/elif\<close> chain on the mode, unbound variables, the files it loads and saves) is
  modelled as written.
\<close>

subsection \<open>Errors, calls and the framework\<close>

datatype error =
    AssertionError
  | NameError string
  | FileNotFoundError string
  | ZeroDivisionError
  | SystemExit nat
  | RuntimeError string

datatype dtype = Float16 | Float32

datatype model_kind = Dense | Sparse

text \<open>The keyword arguments of \<open>WeightNormSparsifier(...)\<close>.\<close>

record sparsifier_config =
  sparsity_level :: real
  sparse_block_shape :: "nat \<times> nat"
  zeros_per_block :: nat

datatype fw_call =
    BuildModel nat nat dtype
      \<comment> \<open>\<open>Model(m, k).half().cuda().eval()\<close>, or \<open>.type(dtype)\<close> for the dtype sweep\<close>
  | Randn "nat list" \<comment> \<open>\<open>torch.randn(batch, n, k, device=..., dtype=...)\<close>\<close>
  | Randint nat "nat list" dtype
  | SparsifierInit sparsifier_config
  | Prepare string \<comment> \<open>\<open>pruner.prepare(model, [{"tensor_fqn": fqn}])\<close>\<close>
  | Step
  | Convert "bool option" \<comment> \<open>\<open>pruner.convert(model, mapping={nn.Linear: cuSPARSELtLinear})\<close>, with the \<open>inplace\<close> argument when given\<close>
  | SquashMask
  | OpenDevnull \<comment> \<open>\<open>open("/dev/null", "w")\<close>\<close>
  | DupStdout \<comment> \<open>\<open>os.dup(sys.stdout.fileno())\<close>\<close>
  | RedirectStdout \<comment> \<open>\<open>os.dup2(devnull.fileno(), 1)\<close>\<close>
  | RestoreStdout \<comment> \<open>\<open>os.dup2(oldstdout_fno, 1)\<close>\<close>
  | Forward model_kind nat
      \<comment> \<open>\<open>model(input_tensor)\<close> or \<open>sparse_model(input_tensor)\<close>, on the tensor with this handle\<close>
  | Allclose real real \<comment> \<open>\<open>torch.allclose(_, _, rtol=..., atol=...)\<close>\<close>
  | GetAlgId
  | BlockedAutorange model_kind nat
      \<comment> \<open>\<open>benchmark.Timer(stmt, globals).blocked_autorange()\<close>, timing the model on the tensor with this handle\<close>
  | EmptyCache
  | MemoryAllocated string \<comment> \<open>\<open>print(f"{label}: {sizeof_fmt(torch.cuda.memory_allocated())}")\<close>\<close>
  | MemorySummary \<comment> \<open>\<open>print(torch.cuda.memory_summary())\<close>\<close>
  | PrintModel \<comment> \<open>\<open>print(model)\<close>\<close>
  | TorchLoad string
  | LoadStateDict model_kind
  | TorchSave model_kind string \<comment> \<open>\<open>torch.save(model.state_dict(), file)\<close>\<close>
  | Pprint
  | OsStat string
  | FromRecords
  | ToCsv string
  | GroupbyFirst \<comment> \<open>\<open>print(df.groupby(["m", "k", "n", "eval_batch_size"]).first())\<close>\<close>
  | Print string \<comment> \<open>a plain \<open>print\<close> of a string the script builds\<close>

text \<open>
  What the world outside the script answers. Every answer may depend on the whole history
  of calls. \<open>'f\<close> is the type of Python floats; the two float operations the script
  uses are part of the framework, so nothing is assumed about rounding.
  \<open>fdiv\<close> is \<open>None\<close> where Python raises \<open>ZeroDivisionError\<close>.
\<close>

record 'f framework =
  raises :: "fw_call list \<Rightarrow> fw_call \<Rightarrow> error option"
  bool_result :: "fw_call list \<Rightarrow> bool"
  int_result :: "fw_call list \<Rightarrow> int"
  float_result :: "fw_call list \<Rightarrow> 'f"
  fmul :: "'f \<Rightarrow> int \<Rightarrow> 'f"
  fdiv :: "'f \<Rightarrow> 'f \<Rightarrow> 'f option"

text \<open>The state the script acts on: the calls made so far and the files of the working directory.\<close>

record state =
  trace :: "fw_call list"
  files :: "string set"

text \<open>A statement: run from a state, it raises or returns, and leaves a state.\<close>

type_synonym 'a prog = "state \<Rightarrow> (error + 'a) \<times> state"

definition ret :: "'a \<Rightarrow> 'a prog" where
  "ret x s = (Inr x, s)"

definition raise :: "error \<Rightarrow> 'a prog" where
  "raise e s = (Inl e, s)"

text \<open>Sequencing of two statements: an exception of the first ends the run (the script has no \<open>try\<close>).\<close>

definition bindE :: "'a prog \<Rightarrow> ('a \<Rightarrow> 'b prog) \<Rightarrow> 'b prog" where
  "bindE p f s = (case p s of (Inl e, s') \<Rightarrow> (Inl e, s') | (Inr x, s') \<Rightarrow> f x s')"

text \<open>
  Whether a call raises in a state: opening a file that does not exist raises
  \<open>FileNotFoundError\<close>; anything else is the framework's answer.
\<close>

definition failure :: "'f framework \<Rightarrow> state \<Rightarrow> fw_call \<Rightarrow> error option" where
  "failure fw s c =
     (case c of
        TorchLoad f \<Rightarrow> if f \<in> files s then raises fw (trace s) c else Some (FileNotFoundError f)
      | OsStat f \<Rightarrow> if f \<in> files s then raises fw (trace s) c else Some (FileNotFoundError f)
      | _ \<Rightarrow> raises fw (trace s) c)"

text \<open>A call that returns creates the file it writes.\<close>

definition effect :: "fw_call \<Rightarrow> state \<Rightarrow> state" where
  "effect c s =
     (case c of
        TorchSave _ f \<Rightarrow> s\<lparr>files := insert f (files s)\<rparr>
      | ToCsv f \<Rightarrow> s\<lparr>files := insert f (files s)\<rparr>
      | _ \<Rightarrow> s)"

definition call :: "'f framework \<Rightarrow> fw_call \<Rightarrow> unit prog" where
  "call fw c s =
     (case failure fw s c of
        Some e \<Rightarrow> (Inl e, s\<lparr>trace := trace s @ [c]\<rparr>)
      | None \<Rightarrow> (Inr (), effect c (s\<lparr>trace := trace s @ [c]\<rparr>)))"

definition call_bool :: "'f framework \<Rightarrow> fw_call \<Rightarrow> bool prog" where
  "call_bool fw c = bindE (call fw c) (\<lambda>_ s. (Inr (bool_result fw (trace s)), s))"

definition call_int :: "'f framework \<Rightarrow> fw_call \<Rightarrow> int prog" where
  "call_int fw c = bindE (call fw c) (\<lambda>_ s. (Inr (int_result fw (trace s)), s))"

definition call_float :: "'f framework \<Rightarrow> fw_call \<Rightarrow> 'f prog" where
  "call_float fw c = bindE (call fw c) (\<lambda>_ s. (Inr (float_result fw (trace s)), s))"

text \<open>
  A call that makes a tensor answers a handle for it: the position of the call in the
  trace, so that two tensors never share a handle.
\<close>

definition call_new :: "'f framework \<Rightarrow> fw_call \<Rightarrow> nat prog" where
  "call_new fw c s = bindE (call fw c) (\<lambda>_. ret (length (trace s))) s"

text \<open>A plain \<open>print\<close> of the script: logged, never raising.\<close>

definition emit :: "fw_call \<Rightarrow> unit prog" where
  "emit c s = (Inr (), s\<lparr>trace := trace s @ [c]\<rparr>)"

text \<open>The \<open>assert\<close> statement.\<close>

definition assert :: "bool \<Rightarrow> unit prog" where
  "assert b = (if b then ret () else raise AssertionError)"

text \<open>The calls a program adds to the trace when run from a state.\<close>

definition events :: "'a prog \<Rightarrow> state \<Rightarrow> fw_call list" where
  "events p s = drop (length (trace s)) (trace (snd (p s)))"

subsection \<open>compare\_linear\<close>

record 'f linear_row =
  lr_m :: nat
  lr_k :: nat
  lr_n :: nat
  lr_eval_batch_size :: nat
  lr_init_batch_size :: nat
  lr_alg_id :: int
  lr_sparse_latency_ms :: 'f
  lr_dense_latency_ms :: 'f
  lr_speedup :: 'f

text \<open>\<open>init_batch_size if init_batch_size else batch_size\<close>: \<open>None\<close> and \<open>0\<close> are both falsy.\<close>

definition init_or_batch :: "nat option \<Rightarrow> nat \<Rightarrow> nat" where
  "init_or_batch init_batch_size batch_size =
     (case init_batch_size of
        None \<Rightarrow> batch_size
      | Some i \<Rightarrow> if i \<noteq> 0 then i else batch_size)"

definition compare_linear ::
  "'f framework \<Rightarrow> nat \<Rightarrow> nat \<Rightarrow> nat \<Rightarrow> nat \<Rightarrow> nat option \<Rightarrow> 'f linear_row prog" where
  "compare_linear fw m k n batch_size init_batch_size =
     bindE (call fw (BuildModel m k Float16)) (\<lambda>_.
     bindE (call_new fw (Randn [init_or_batch init_batch_size batch_size, n, k])) (\<lambda>input_tensor.
     bindE (call fw (SparsifierInit
              \<lparr>sparsity_level = 1, sparse_block_shape = (1, 4), zeros_per_block = 2\<rparr>)) (\<lambda>_.
     bindE (call fw (Prepare ''linear.weight'')) (\<lambda>_.
     bindE (call fw Step) (\<lambda>_.
     bindE (call fw (Convert None)) (\<lambda>_.
     bindE (call fw SquashMask) (\<lambda>_.
     bindE (call fw OpenDevnull) (\<lambda>_.
     bindE (call fw DupStdout) (\<lambda>_.
     bindE (call fw RedirectStdout) (\<lambda>_.
     bindE (call fw (Forward Dense input_tensor)) (\<lambda>_.
     bindE (call fw (Forward Sparse input_tensor)) (\<lambda>_.
     bindE (call_bool fw (Allclose (1 / 1000) (1 / 1000))) (\<lambda>close.
     bindE (assert close) (\<lambda>_.
     bindE (call_int fw GetAlgId) (\<lambda>alg_id.
     bindE (call_new fw (Randn [batch_size, n, k])) (\<lambda>input_tensor.
     bindE (call_float fw (BlockedAutorange Sparse input_tensor)) (\<lambda>sparse_median.
     bindE (call_float fw (BlockedAutorange Dense input_tensor)) (\<lambda>dense_median.
     bindE (call fw RestoreStdout) (\<lambda>_.
     bindE (call fw EmptyCache) (\<lambda>_.
     bindE (call fw EmptyCache) (\<lambda>_.
     bindE (call fw EmptyCache) (\<lambda>_.
       (case fdiv fw dense_median sparse_median of
          None \<Rightarrow> raise ZeroDivisionError
        | Some speedup \<Rightarrow>
            ret \<lparr>lr_m = m, lr_k = k, lr_n = n,
                 lr_eval_batch_size = batch_size,
                 lr_init_batch_size = init_or_batch init_batch_size batch_size,
                 lr_alg_id = alg_id,
                 lr_sparse_latency_ms = fmul fw sparse_median 1000,
                 lr_dense_latency_ms = fmul fw dense_median 1000,
                 lr_speedup = speedup\<rparr>)))))))))))))))))))))))"

subsection \<open>compare\_dtype\<close>

record 'f dtype_row =
  dr_m :: nat
  dr_k :: nat
  dr_n :: nat
  dr_eval_batch_size :: nat
  dr_dtype :: string
  dr_latency_ms :: 'f

definition str_dtype :: "dtype \<Rightarrow> string" where
  "str_dtype d = (case d of Float16 \<Rightarrow> ''torch.float16'' | Float32 \<Rightarrow> ''torch.float32'')"

definition compare_dtype ::
  "'f framework \<Rightarrow> nat \<Rightarrow> nat \<Rightarrow> nat \<Rightarrow> nat \<Rightarrow> dtype \<Rightarrow> 'f dtype_row prog" where
  "compare_dtype fw m k n batch_size dtype =
     bindE (call fw (BuildModel m k dtype)) (\<lambda>_.
     bindE (call_new fw (Randint 10 [batch_size, n, k] dtype)) (\<lambda>input_tensor.
     bindE (call_float fw (BlockedAutorange Dense input_tensor)) (\<lambda>latency_median.
       ret \<lparr>dr_m = m, dr_k = k, dr_n = n,
            dr_eval_batch_size = batch_size,
            dr_dtype = str_dtype dtype,
            dr_latency_ms = fmul fw latency_median 1000\<rparr>)))"

subsection \<open>compare\_memory\<close>

text \<open>
  The row of the memory mode. The two size fields hold the byte counts \<open>os.stat\<close> answers;
  the text \<open>sizeof_fmt\<close> makes of them is not modelled.
\<close>

record memory_row =
  mr_m :: nat
  mr_k :: nat
  mr_n :: nat
  mr_eval_batch_size :: nat
  mr_init_batch_size :: nat
  mr_alg_id :: int
  mr_sparse_model_size :: int
  mr_dense_model_size :: int

text \<open>
  The block \<open>print("+"*100); print(f"{label}: {sizeof_fmt(torch.cuda.memory_allocated())}");
  print(torch.cuda.memory_summary())\<close> that compare\_memory repeats.
\<close>

definition plus_line :: string where
  "plus_line = replicate 100 CHR ''+''"

definition memory_report :: "'f framework \<Rightarrow> string \<Rightarrow> unit prog" where
  "memory_report fw label =
     bindE (emit (Print plus_line)) (\<lambda>_.
     bindE (call fw (MemoryAllocated label)) (\<lambda>_.
     call fw MemorySummary))"

definition compare_memory ::
  "'f framework \<Rightarrow> nat \<Rightarrow> nat \<Rightarrow> nat \<Rightarrow> nat \<Rightarrow> memory_row prog" where
  "compare_memory fw m k n batch_size =
     bindE (memory_report fw ''start'') (\<lambda>_.
     bindE (call fw (BuildModel m k Float16)) (\<lambda>_.
     bindE (memory_report fw ''model'') (\<lambda>_.
     bindE (call_new fw (Randn [batch_size, n, k])) (\<lambda>input_tensor.
     bindE (memory_report fw ''input'') (\<lambda>_.
     bindE (call fw (MemoryAllocated ''sparse start'')) (\<lambda>_.
     bindE (call fw (SparsifierInit
              \<lparr>sparsity_level = 1, sparse_block_shape = (1, 4), zeros_per_block = 2\<rparr>)) (\<lambda>_.
     bindE (call fw (Prepare ''linear.weight'')) (\<lambda>_.
     bindE (call fw Step) (\<lambda>_.
     bindE (memory_report fw ''step'') (\<lambda>_.
     bindE (call fw (Convert (Some False))) (\<lambda>_.
     bindE (call fw (TorchLoad ''sparse_model.pt'')) (\<lambda>_.
     bindE (call fw (LoadStateDict Sparse)) (\<lambda>_.
     bindE (call fw PrintModel) (\<lambda>_.
     bindE (memory_report fw ''convert'') (\<lambda>_.
     bindE (call fw SquashMask) (\<lambda>_.
     bindE (call fw (TorchLoad ''dense_model.pt'')) (\<lambda>_.
     bindE (call fw (LoadStateDict Dense)) (\<lambda>_.
     bindE (memory_report fw ''squash'') (\<lambda>_.
     bindE (call fw EmptyCache) (\<lambda>_.
     bindE (memory_report fw ''del pruner'') (\<lambda>_.
     bindE (call fw (Forward Dense input_tensor)) (\<lambda>_.
     bindE (call fw (Forward Sparse input_tensor)) (\<lambda>_.
     bindE (call_bool fw (Allclose (1 / 1000) (1 / 1000))) (\<lambda>close.
     bindE (assert close) (\<lambda>_.
     bindE (call_int fw GetAlgId) (\<lambda>alg_id.
     bindE (call fw PrintModel) (\<lambda>_.
     bindE (call fw (TorchSave Sparse ''sparse_model.pt'')) (\<lambda>_.
     bindE (call fw (TorchSave Dense ''dense_model.pt'')) (\<lambda>_.
     bindE (call fw (TorchLoad ''sparse_model.pt'')) (\<lambda>_.
     bindE (call fw Pprint) (\<lambda>_.
     bindE (call_int fw (OsStat ''sparse_model.pt'')) (\<lambda>sparse_size.
     bindE (call_int fw (OsStat ''dense_model.pt'')) (\<lambda>dense_size.
       ret \<lparr>mr_m = m, mr_k = k, mr_n = n,
            mr_eval_batch_size = batch_size,
            mr_init_batch_size = batch_size,
            mr_alg_id = alg_id,
            mr_sparse_model_size = sparse_size,
            mr_dense_model_size = dense_size\<rparr>)))))))))))))))))))))))))))))))))"

subsection \<open>The command line and the mode dispatch\<close>

datatype 'f row =
    LinearRow "'f linear_row"
  | MemoryRow memory_row
  | DtypeRow "'f dtype_row"

text \<open>The columns \<open>m\<close>, \<open>k\<close>, \<open>n\<close> and \<open>eval_batch_size\<close> that every row has.\<close>

fun row_shape :: "'f row \<Rightarrow> nat \<times> nat \<times> nat \<times> nat" where
  "row_shape (LinearRow r) = (lr_m r, lr_k r, lr_n r, lr_eval_batch_size r)"
| "row_shape (MemoryRow r) = (mr_m r, mr_k r, mr_n r, mr_eval_batch_size r)"
| "row_shape (DtypeRow r) = (dr_m r, dr_k r, dr_n r, dr_eval_batch_size r)"

definition mode_choices :: "string list" where
  "mode_choices =
     [''nvidia-bert'', ''nvidia-fixed-k'', ''nvidia-fixed-mn'', ''distilbert-shapes'',
      ''alg-id-sweep'', ''int8-fp16-linear'', ''memory'']"

text \<open>
  \<open>parser.parse_args()\<close> for the one argument the script declares. The input is the value
  given to \<open>--mode\<close>, \<open>None\<close> when the flag is absent (it is not \<open>required\<close> and has no
  default). A value outside \<open>choices\<close> makes argparse exit with status 2.
\<close>

definition parse_args :: "string option \<Rightarrow> error + string option" where
  "parse_args given =
     (case given of
        None \<Rightarrow> Inr None
      | Some v \<Rightarrow> if v \<in> set mode_choices then Inr (Some v) else Inl (SystemExit 2))"

text \<open>\<open>f"{args.mode}"\<close>: the string, or \<open>None\<close> printed as text.\<close>

definition str_mode :: "string option \<Rightarrow> string" where
  "str_mode mode = (case mode of None \<Rightarrow> ''None'' | Some v \<Rightarrow> v)"

text \<open>A comprehension over a list: the calls run in order, the first exception ends it.\<close>

fun for_each :: "('a \<Rightarrow> 'b prog) \<Rightarrow> 'a list \<Rightarrow> 'b list prog" where
  "for_each f [] = ret []"
| "for_each f (x # xs) = bindE (f x) (\<lambda>y. bindE (for_each f xs) (\<lambda>ys. ret (y # ys)))"

text \<open>\<open>range(start, stop, step)\<close> for a positive step.\<close>

definition py_range :: "nat \<Rightarrow> nat \<Rightarrow> nat \<Rightarrow> nat list" where
  "py_range start stop step = map (\<lambda>i. start + i * step) [0 ..< (stop - start + step - 1) div step]"

text \<open>\<open>itertools.product(xs, ys)\<close>: the last component varies fastest.\<close>

definition product :: "'a list \<Rightarrow> 'b list \<Rightarrow> ('a \<times> 'b) list" where
  "product xs ys = concat (map (\<lambda>x. map (\<lambda>y. (x, y)) ys) xs)"

definition bert_shapes :: "(nat \<times> nat \<times> nat) list" where
  "bert_shapes = [(3072, 1024, 16384), (4096, 1024, 16384), (1024, 1024, 16384), (1024, 4096, 16384)]"

definition mn_vals :: "nat list" where
  "mn_vals = [3072, 4096, 5120, 6144, 7168, 8192, 9216, 10240, 11264, 12288,
              13312, 14336, 15360, 16384, 17408, 18432, 19456, 20480]"

definition k_vals :: "nat list" where
  "k_vals = [2560, 3840, 5120, 6400, 7680, 8960, 10240, 11520, 12800, 14080,
             15360, 16640, 17920, 19200, 20480]"

definition distilbert_shapes :: "(nat \<times> nat \<times> nat) list" where
  "distilbert_shapes = [(768, 3072, 3072), (3072, 768, 3072)]"

definition sweep_batch_sizes :: "nat list" where
  "sweep_batch_sizes = [4, 16, 64, 256]"

definition dim_range :: "nat list" where
  "dim_range = py_range 96 (3072 + 1) 96"

definition alg_batch_sizes :: "nat list" where
  "alg_batch_sizes = py_range 4 (128 + 1) 4"

definition sweep_dtypes :: "dtype list" where
  "sweep_dtypes = [Float32, Float16]"

text \<open>
  The \<open>if/elif\<close> chain on \<open>args.mode\<close>. A generator expression is not run where it is
  written: the branch binds \<open>results\<close> to the suspended sweep, which runs when
  \<open>from_records\<close> consumes it. The two branches that build lists run their sweep at once.
  When no branch is taken \<open>results\<close> stays unbound: the answer is \<open>None\<close>.
\<close>

definition dispatch :: "'f framework \<Rightarrow> string option \<Rightarrow> 'f row list prog option prog" where
  "dispatch fw mode =
     (if mode = Some ''nvidia-bert'' then
        ret (Some (for_each (\<lambda>(m, k, n). bindE (compare_linear fw m k n 1 None) (\<lambda>r. ret (LinearRow r)))
                     bert_shapes))
      else if mode = Some ''nvidia-fixed-k'' then
        ret (Some (for_each (\<lambda>mn. bindE (compare_linear fw mn 10240 mn 1 None) (\<lambda>r. ret (LinearRow r)))
                     mn_vals))
      else if mode = Some ''nvidia-fixed-mn'' then
        ret (Some (for_each (\<lambda>k. bindE (compare_linear fw 10240 k 10240 1 None) (\<lambda>r. ret (LinearRow r)))
                     k_vals))
      else if mode = Some ''distilbert-shapes'' then
        ret (Some (for_each (\<lambda>((m, k, n), batch_size).
                       bindE (compare_linear fw m k n batch_size None) (\<lambda>r. ret (LinearRow r)))
                     (product distilbert_shapes sweep_batch_sizes)))
      else if mode = Some ''alg-id-sweep'' then
        bindE (for_each (\<lambda>(n, batch_size).
                  bindE (compare_linear fw 768 3072 n batch_size None) (\<lambda>r. ret (LinearRow r)))
                (product dim_range alg_batch_sizes)) (\<lambda>results.
        bindE (for_each (\<lambda>(batch_size, init_batch_size).
                  bindE (compare_linear fw 768 3072 96 batch_size (Some init_batch_size))
                    (\<lambda>r. ret (LinearRow r)))
                (product alg_batch_sizes alg_batch_sizes)) (\<lambda>more.
        ret (Some (ret (results @ more)))))
      else if mode = Some ''memory'' then
        bindE (compare_memory fw 4096 4096 4096 1) (\<lambda>r. ret (Some (ret [MemoryRow r])))
      else if mode = Some ''int8-fp16-linear'' then
        ret (Some (for_each (\<lambda>(batch_size, dtype).
                       bindE (compare_dtype fw 768 3072 768 batch_size dtype) (\<lambda>r. ret (DtypeRow r)))
                     (product sweep_batch_sizes sweep_dtypes)))
      else ret None)"

text \<open>
  \<open>pd.DataFrame.from_records(results)\<close>: reading the unbound name raises \<open>NameError\<close>;
  otherwise the sweep is consumed and the frame built.
\<close>

definition from_records :: "'f framework \<Rightarrow> 'f row list prog option \<Rightarrow> 'f row list prog" where
  "from_records fw results =
     (case results of
        None \<Rightarrow> raise (NameError ''results'')
      | Some sweep \<Rightarrow> bindE sweep (\<lambda>rows. bindE (call fw FromRecords) (\<lambda>_. ret rows)))"

text \<open>
  The body under \<open>if __name__ == "__main__"\<close>. It answers the name of the file it saved and
  the rows of the frame.
\<close>

definition main :: "'f framework \<Rightarrow> string option \<Rightarrow> (string \<times> 'f row list) prog" where
  "main fw given =
     (case parse_args given of
        Inl e \<Rightarrow> raise e
      | Inr mode \<Rightarrow>
          bindE (emit (Print (''Started benchmark: '' @ str_mode mode))) (\<lambda>_.
          bindE (dispatch fw mode) (\<lambda>results.
          bindE (ret (str_mode mode @ ''.csv'')) (\<lambda>save_file.
          bindE (from_records fw results) (\<lambda>df.
          bindE (call fw (ToCsv save_file)) (\<lambda>_.
          bindE (emit (Print (''Finished benchmark: '' @ str_mode mode @ '' saved results to '' @ save_file))) (\<lambda>_.
          bindE (call fw GroupbyFirst) (\<lambda>_.
            ret (save_file, df)))))))))"

subsection \<open>The fixed sweep of every mode\<close>

text \<open>The shapes \<open>(m, k, n, eval_batch_size)\<close> a mode benchmarks, in order.\<close>

definition sweep :: "string \<Rightarrow> (nat \<times> nat \<times> nat \<times> nat) list" where
  "sweep mode =
     (if mode = ''nvidia-bert'' then map (\<lambda>(m, k, n). (m, k, n, 1)) bert_shapes
      else if mode = ''nvidia-fixed-k'' then map (\<lambda>mn. (mn, 10240, mn, 1)) mn_vals
      else if mode = ''nvidia-fixed-mn'' then map (\<lambda>k. (10240, k, 10240, 1)) k_vals
      else if mode = ''distilbert-shapes'' then
        map (\<lambda>((m, k, n), batch_size). (m, k, n, batch_size))
          (product distilbert_shapes sweep_batch_sizes)
      else if mode = ''alg-id-sweep'' then
        map (\<lambda>(n, batch_size). (768, 3072, n, batch_size)) (product dim_range alg_batch_sizes) @
        map (\<lambda>(batch_size, init_batch_size). (768, 3072, 96, batch_size))
          (product alg_batch_sizes alg_batch_sizes)
      else if mode = ''memory'' then [(4096, 4096, 4096, 1)]
      else if mode = ''int8-fp16-linear'' then
        map (\<lambda>(batch_size, dtype). (768, 3072, 768, batch_size))
          (product sweep_batch_sizes sweep_dtypes)
      else [])"

subsection \<open>The calls of a complete run, written out\<close>

text \<open>
  The structured-sparsity configuration: blocks of \<open>1 \<times> 4\<close> weights with two zeros each.
\<close>

definition sparsifier_2_4 :: sparsifier_config where
  "sparsifier_2_4 = \<lparr>sparsity_level = 1, sparse_block_shape = (1, 4), zeros_per_block = 2\<rparr>"

text \<open>
  What compare\_linear calls up to and including \<open>torch.allclose\<close>, and what it calls after the
  assertion, when the run starts at position \<open>p\<close> of the trace.
\<close>

definition calls_to_assert :: "nat \<Rightarrow> nat \<Rightarrow> nat \<Rightarrow> nat \<Rightarrow> nat \<Rightarrow> nat option \<Rightarrow> fw_call list" where
  "calls_to_assert p m k n batch_size init_batch_size =
     [BuildModel m k Float16, Randn [init_or_batch init_batch_size batch_size, n, k],
      SparsifierInit sparsifier_2_4, Prepare ''linear.weight'', Step, Convert None, SquashMask,
      OpenDevnull, DupStdout, RedirectStdout,
      Forward Dense (p + 1), Forward Sparse (p + 1), Allclose (1 / 1000) (1 / 1000)]"

definition calls_after_assert :: "nat \<Rightarrow> nat \<Rightarrow> nat \<Rightarrow> nat \<Rightarrow> fw_call list" where
  "calls_after_assert p k n batch_size =
     [GetAlgId, Randn [batch_size, n, k],
      BlockedAutorange Sparse (p + 14), BlockedAutorange Dense (p + 14),
      RestoreStdout, EmptyCache, EmptyCache, EmptyCache]"

text \<open>The steps the specification names.\<close>

fun spec_step :: "fw_call \<Rightarrow> bool" where
  "spec_step (BuildModel _ _ _) = True"
| "spec_step (SparsifierInit _) = True"
| "spec_step (Prepare _) = True"
| "spec_step Step = True"
| "spec_step (Convert _) = True"
| "spec_step (Allclose _ _) = True"
| "spec_step (BlockedAutorange _ _) = True"
| "spec_step _ = False"

definition memory_report_calls :: "string \<Rightarrow> fw_call list" where
  "memory_report_calls label = [Print plus_line, MemoryAllocated label, MemorySummary]"

definition memory_calls_to_load_sparse :: "nat \<Rightarrow> nat \<Rightarrow> nat \<Rightarrow> nat \<Rightarrow> fw_call list" where
  "memory_calls_to_load_sparse m k n batch_size =
     memory_report_calls ''start'' @ [BuildModel m k Float16] @
     memory_report_calls ''model'' @ [Randn [batch_size, n, k]] @
     memory_report_calls ''input'' @
     [MemoryAllocated ''sparse start'', SparsifierInit sparsifier_2_4,
      Prepare ''linear.weight'', Step] @
     memory_report_calls ''step'' @
     [Convert (Some False), TorchLoad ''sparse_model.pt'']"

definition memory_calls_to_load_dense :: "nat \<Rightarrow> nat \<Rightarrow> nat \<Rightarrow> nat \<Rightarrow> fw_call list" where
  "memory_calls_to_load_dense m k n batch_size =
     memory_calls_to_load_sparse m k n batch_size @
     [LoadStateDict Sparse, PrintModel] @
     memory_report_calls ''convert'' @
     [SquashMask, TorchLoad ''dense_model.pt'']"

definition memory_calls_to_assert :: "nat \<Rightarrow> nat \<Rightarrow> nat \<Rightarrow> nat \<Rightarrow> nat \<Rightarrow> fw_call list" where
  "memory_calls_to_assert p m k n batch_size =
     memory_calls_to_load_dense m k n batch_size @
     [LoadStateDict Dense] @
     memory_report_calls ''squash'' @ [EmptyCache] @
     memory_report_calls ''del pruner'' @
     [Forward Dense (p + 7), Forward Sparse (p + 7), Allclose (1 / 1000) (1 / 1000)]"

definition memory_calls_after_assert :: "fw_call list" where
  "memory_calls_after_assert =
     [GetAlgId, PrintModel, TorchSave Sparse ''sparse_model.pt'', TorchSave Dense ''dense_model.pt'',
      TorchLoad ''sparse_model.pt'', Pprint, OsStat ''sparse_model.pt'', OsStat ''dense_model.pt'']"

subsection \<open>Reading a run\<close>

text \<open>\<open>holds Q p s\<close>: the answer and the final state of \<open>p\<close> run from \<open>s\<close> satisfy \<open>Q\<close>.\<close>

definition holds :: "((error + 'a) \<Rightarrow> state \<Rightarrow> bool) \<Rightarrow> 'a prog \<Rightarrow> state \<Rightarrow> bool" where
  "holds Q p s = Q (fst (p s)) (snd (p s))"

text \<open>The files a call opens for reading.\<close>

definition reads :: "fw_call \<Rightarrow> string set" where
  "reads c = (case c of TorchLoad f \<Rightarrow> {f} | OsStat f \<Rightarrow> {f} | _ \<Rightarrow> {})"

text \<open>
  Every way a run of compare\_linear from \<open>s\<close> can end: with answer \<open>r\<close> in state \<open>s'\<close>.
\<close>

definition linear_outcome ::
  "'f framework \<Rightarrow> nat \<Rightarrow> nat \<Rightarrow> nat \<Rightarrow> nat \<Rightarrow> nat option \<Rightarrow> state
     \<Rightarrow> (error + 'f linear_row) \<Rightarrow> state \<Rightarrow> bool" where
  "linear_outcome fw m k n b ib s r s' =
     (let new = drop (length (trace s)) (trace s');
          pre = calls_to_assert (length (trace s)) m k n b ib;
          post = calls_after_assert (length (trace s)) k n b;
          h = trace s @ pre
      in trace s' = trace s @ new \<and> files s' = files s \<and>
         new = take (length new) (pre @ post) \<and>
         (length pre < length new \<longrightarrow> bool_result fw h) \<and>
         (case r of
            Inr row \<Rightarrow>
              new = pre @ post \<and> bool_result fw h \<and>
              fdiv fw (float_result fw (h @ take 4 post)) (float_result fw (h @ take 3 post))
                = Some (lr_speedup row) \<and>
              row = \<lparr>lr_m = m, lr_k = k, lr_n = n, lr_eval_batch_size = b,
                     lr_init_batch_size = init_or_batch ib b,
                     lr_alg_id = int_result fw (h @ take 1 post),
                     lr_sparse_latency_ms = fmul fw (float_result fw (h @ take 3 post)) 1000,
                     lr_dense_latency_ms = fmul fw (float_result fw (h @ take 4 post)) 1000,
                     lr_speedup = lr_speedup row\<rparr>
          | Inl e \<Rightarrow>
              new \<noteq> [] \<and>
              (raises fw (trace s @ butlast new) (last new) = Some e \<or>
               e = AssertionError \<and> new = pre \<and> \<not> bool_result fw h \<or>
               e = ZeroDivisionError \<and> new = pre @ post \<and>
               fdiv fw (float_result fw (h @ take 4 post)) (float_result fw (h @ take 3 post)) = None)))"

text \<open>The same for compare\_memory.\<close>

definition memory_outcome ::
  "'f framework \<Rightarrow> nat \<Rightarrow> nat \<Rightarrow> nat \<Rightarrow> nat \<Rightarrow> state \<Rightarrow> (error + memory_row) \<Rightarrow> state \<Rightarrow> bool" where
  "memory_outcome fw m k n b s r s' =
     (let new = drop (length (trace s)) (trace s');
          to_sparse = memory_calls_to_load_sparse m k n b;
          to_dense = memory_calls_to_load_dense m k n b;
          pre = memory_calls_to_assert (length (trace s)) m k n b;
          post = memory_calls_after_assert;
          h = trace s @ pre
      in trace s' = trace s @ new \<and>
         new = take (length new) (pre @ post) \<and>
         (length to_sparse < length new \<longrightarrow> ''sparse_model.pt'' \<in> files s) \<and>
         (length to_dense < length new \<longrightarrow> ''dense_model.pt'' \<in> files s) \<and>
         (length new \<le> length pre + 2 \<longrightarrow> files s' = files s) \<and>
         (length pre < length new \<longrightarrow> bool_result fw h) \<and>
         (case r of
            Inr row \<Rightarrow>
              new = pre @ post \<and> files s' = files s \<and>
              row = \<lparr>mr_m = m, mr_k = k, mr_n = n, mr_eval_batch_size = b,
                     mr_init_batch_size = b,
                     mr_alg_id = int_result fw (h @ take 1 post),
                     mr_sparse_model_size = int_result fw (h @ take 7 post),
                     mr_dense_model_size = int_result fw (h @ post)\<rparr>
          | Inl e \<Rightarrow>
              new \<noteq> [] \<and>
              (raises fw (trace s @ butlast new) (last new) = Some e \<or>
               e = FileNotFoundError ''sparse_model.pt'' \<and> ''sparse_model.pt'' \<notin> files s \<and>
                 new = to_sparse \<or>
               e = FileNotFoundError ''dense_model.pt'' \<and> ''dense_model.pt'' \<notin> files s \<and>
                 new = to_dense \<or>
               e = AssertionError \<and> new = pre \<and> \<not> bool_result fw h)))"

text \<open>
  The state a run is in after the calls \<open>cs\<close> have been made from \<open>s\<close> and have all
  returned: each is in the trace and has created the file it writes.
\<close>

definition replay :: "state \<Rightarrow> fw_call list \<Rightarrow> state" where
  "replay s cs = fold (\<lambda>c st. effect c (st\<lparr>trace := trace st @ [c]\<rparr>)) cs s"

text \<open>A plain \<open>print\<close> is logged in the trace but is not a call that can fail.\<close>

fun is_print :: "fw_call \<Rightarrow> bool" where
  "is_print (Print _) = True"
| "is_print _ = False"

text \<open>
  \<open>propagating fw P p\<close>: in every run of \<open>p\<close>, a call that fails is the last thing the run
  does and its exception is the answer of the run; a run that returns answers a value
  satisfying \<open>P\<close> and ends in the state that replaying its calls gives.
\<close>

definition propagating :: "'f framework \<Rightarrow> ('a \<Rightarrow> bool) \<Rightarrow> 'a prog \<Rightarrow> bool" where
  "propagating fw P p \<longleftrightarrow>
     (\<forall>s. \<exists>evs.
        trace (snd (p s)) = trace s @ evs \<and>
        (\<forall>x. fst (p s) = Inr x \<longrightarrow> P x \<and> snd (p s) = replay s evs) \<and>
        (\<forall>i e. i < length evs \<longrightarrow> \<not> is_print (evs ! i) \<longrightarrow>
           failure fw (replay s (take i evs)) (evs ! i) = Some e \<longrightarrow>
           fst (p s) = Inl e \<and> Suc i = length evs))"

subsection \<open>Concrete frameworks and states for the examples\<close>

text \<open>A framework in which no call raises, outputs are close and every median is 2 (floats read as integers).\<close>

definition fw_ok :: "int framework" where
  "fw_ok = \<lparr>raises = (\<lambda>_ _. None), bool_result = (\<lambda>_. True), int_result = (\<lambda>_. 7),
            float_result = (\<lambda>_. 2), fmul = (\<lambda>x i. x * i),
            fdiv = (\<lambda>a b. if b = 0 then None else Some (a div b))\<rparr>"

text \<open>The same framework, but the dense and sparse outputs are not close.\<close>

definition fw_far :: "int framework" where
  "fw_far = fw_ok\<lparr>bool_result := (\<lambda>_. False)\<rparr>"

text \<open>A framework in which \<open>pruner.step()\<close> raises and no other call does.\<close>

definition fw_boom :: "int framework" where
  "fw_boom = fw_ok\<lparr>raises := (\<lambda>h c. if c = Step then Some (RuntimeError ''boom'') else None)\<rparr>"

text \<open>A run that starts with an empty trace in an empty working directory.\<close>

definition fresh :: state where
  "fresh = \<lparr>trace = [], files = {}\<rparr>"

section \<open>Tracing \<open>cond\<close> (test\_control\_flow.py)\<close>

text \<open>
  What tracing records about a tensor: its size, its element type, whether it requires a
  gradient, and its strides.
\<close>

datatype scalar_type = Float32T | Float64T | BoolT | Int64T

record tensor_meta =
  tm_shape :: "nat list"
  tm_dtype :: scalar_type
  tm_requires_grad :: bool
  tm_stride :: "nat list"

text \<open>
  A tensor as a traced function sees it: its metadata and its elements. A fake tensor has
  metadata only. \<open>'d\<close> is the type of the elements of a tensor, taken together.
\<close>

record 'd tensor =
  t_meta :: tensor_meta
  t_data :: "'d option"

text \<open>What a function returns: a tensor, or a tuple of what it returns.\<close>

datatype 'd pytree = Leaf "'d tensor" | Tuple "'d pytree list"

text \<open>\<open>pytree.tree_flatten\<close>: the tensors of a result, from left to right.\<close>

fun tree_flatten :: "'d pytree \<Rightarrow> 'd tensor list" where
  "tree_flatten (Leaf t) = [t]"
| "tree_flatten (Tuple ts) = concat (map tree_flatten ts)"

text \<open>The tracing modes of the tests: \<open>make_fx(f)\<close> traces with real tensors, \<open>tracing_mode="fake"\<close> with fake ones.\<close>

datatype tracing_mode = Real | Fake

text \<open>
  The two tensor operations the branches of the tests call. They belong to the framework,
  so they are parameters: \<open>x.sin()\<close>, and \<open>torch.zeros(dims)\<close>, which makes a tensor of the
  kind the ambient tracing mode asks for.
\<close>

record 'd tensor_ops =
  op_sin :: "'d tensor \<Rightarrow> 'd tensor"
  op_zeros :: "tracing_mode \<Rightarrow> nat list \<Rightarrow> 'd tensor"

text \<open>
  The branches of the four mismatch tests. A function that runs under tracing takes the
  ambient tracing mode as its first argument.
\<close>

definition true_fn :: "'d tensor_ops \<Rightarrow> tracing_mode \<Rightarrow> 'd tensor \<Rightarrow> 'd pytree" where
  "true_fn ops mode x = Leaf (op_sin ops x)"

definition false_fn_tuple :: "tracing_mode \<Rightarrow> 'd tensor \<Rightarrow> 'd pytree" where
  "false_fn_tuple mode x = Tuple [Leaf x, Leaf x]"

definition false_fn_zeros :: "'d tensor_ops \<Rightarrow> tracing_mode \<Rightarrow> 'd tensor \<Rightarrow> 'd pytree" where
  "false_fn_zeros ops mode x = Leaf (op_zeros ops mode [10, 10])"

text \<open>
  Modelled from the spec: \<open>cond\<close> under tracing is framework code that is not among the
  sources. The specification says of it that a shape or type mismatch during tracing
  surfaces as an assertion failure. So tracing \<open>cond(pred, true_fn, false_fn, [operand])\<close>
  runs both branches on the operand, whatever \<open>pred\<close> is, and asserts that they return the
  same number of tensors and, tensor by tensor, the same metadata. A trace that passes
  answers the metadata of the outputs; the graph itself is not modelled.
\<close>

definition trace_cond ::
  "tracing_mode \<Rightarrow> 'd tensor \<Rightarrow> (tracing_mode \<Rightarrow> 'd tensor \<Rightarrow> 'd pytree)
     \<Rightarrow> (tracing_mode \<Rightarrow> 'd tensor \<Rightarrow> 'd pytree) \<Rightarrow> 'd tensor \<Rightarrow> error + tensor_meta list" where
  "trace_cond mode pred true_branch false_branch operand =
     (let true_outs = tree_flatten (true_branch mode operand);
          false_outs = tree_flatten (false_branch mode operand)
      in if length true_outs \<noteq> length false_outs then Inl AssertionError
         else if list_ex (\<lambda>(a, b). t_meta a \<noteq> t_meta b) (zip true_outs false_outs)
           then Inl AssertionError
         else Inr (map t_meta false_outs))"

text \<open>\<open>def f(x, y): return cond(y, true_fn, false_fn, [x])\<close> of the two kinds of test.\<close>

definition f_mismatch_type ::
  "'d tensor_ops \<Rightarrow> tracing_mode \<Rightarrow> 'd tensor \<Rightarrow> 'd tensor \<Rightarrow> error + tensor_meta list" where
  "f_mismatch_type ops mode x y = trace_cond mode y (true_fn ops) false_fn_tuple x"

definition f_mismatch_size ::
  "'d tensor_ops \<Rightarrow> tracing_mode \<Rightarrow> 'd tensor \<Rightarrow> 'd tensor \<Rightarrow> error + tensor_meta list" where
  "f_mismatch_size ops mode x y = trace_cond mode y (true_fn ops) (false_fn_zeros ops) x"

text \<open>What a traced function is given for an argument: the tensor, or a fake tensor with its metadata.\<close>

definition trace_input :: "tracing_mode \<Rightarrow> 'd tensor \<Rightarrow> 'd tensor" where
  "trace_input mode t = (case mode of Real \<Rightarrow> t | Fake \<Rightarrow> t\<lparr>t_data := None\<rparr>)"

text \<open>
  Modelled from the spec: \<open>make_fx(f, tracing_mode)(x, y)\<close> is framework code that is not
  among the sources. It runs \<open>f\<close> under the tracing mode on what the mode makes of the
  arguments; an exception raised while tracing is propagated directly to the caller.
\<close>

definition make_fx ::
  "tracing_mode \<Rightarrow> (tracing_mode \<Rightarrow> 'd tensor \<Rightarrow> 'd tensor \<Rightarrow> error + tensor_meta list)
     \<Rightarrow> 'd tensor \<Rightarrow> 'd tensor \<Rightarrow> error + tensor_meta list" where
  "make_fx mode f x y = f mode (trace_input mode x) (trace_input mode y)"

text \<open>The strides of a contiguous tensor of a given size.\<close>

fun contiguous :: "nat list \<Rightarrow> nat list" where
  "contiguous [] = []"
| "contiguous (d # ds) = prod_list ds # contiguous ds"

text \<open>
  An example of the two operations, on tensors of reals: \<open>sin\<close> elementwise, with integer
  and boolean tensors promoted to \<open>float32\<close>, and a contiguous \<open>float32\<close> tensor of zeros.
\<close>

definition example_ops :: "real list tensor_ops" where
  "example_ops =
     \<lparr>op_sin = (\<lambda>t.
        \<lparr>t_meta = (t_meta t)\<lparr>tm_dtype :=
            (case tm_dtype (t_meta t) of BoolT \<Rightarrow> Float32T | Int64T \<Rightarrow> Float32T | d \<Rightarrow> d)\<rparr>,
         t_data = map_option (map sin) (t_data t)\<rparr>),
      op_zeros = (\<lambda>mode dims.
        \<lparr>t_meta = \<lparr>tm_shape = dims, tm_dtype = Float32T, tm_requires_grad = False,
                   tm_stride = contiguous dims\<rparr>,
         t_data = (case mode of Real \<Rightarrow> Some (replicate (prod_list dims) 0) | Fake \<Rightarrow> None)\<rparr>)\<rparr>"

text \<open>The arguments of the tests: a tensor like \<open>torch.randn(4)\<close>, and \<open>torch.tensor(False)\<close>.\<close>

definition randn_4 :: "real list tensor" where
  "randn_4 =
     \<lparr>t_meta = \<lparr>tm_shape = [4], tm_dtype = Float32T, tm_requires_grad = False, tm_stride = [1]\<rparr>,
      t_data = Some [3 / 10, - 12 / 10, 1 / 2, 2]\<rparr>"

definition tensor_False :: "real list tensor" where
  "tensor_False =
     \<lparr>t_meta = \<lparr>tm_shape = [], tm_dtype = BoolT, tm_requires_grad = False, tm_stride = []\<rparr>,
      t_data = Some [0]\<rparr>"

section \<open>Rules for reading a run step by step\<close>

lemma failure_None_reads: "failure fw s c = None \<Longrightarrow> reads c \<subseteq> files s"
  by (auto simp: failure_def reads_def split: fw_call.splits if_splits)

lemma trace_effect: "trace (effect c s) = trace s"
  by (simp add: effect_def split: fw_call.splits)

lemma holds_call:
  assumes "\<And>e. failure fw s c = Some e \<Longrightarrow> Q (Inl e) (s\<lparr>trace := trace s @ [c]\<rparr>)"
      and "reads c \<subseteq> files s \<Longrightarrow> holds Q (f ()) (effect c (s\<lparr>trace := trace s @ [c]\<rparr>))"
  shows "holds Q (bindE (call fw c) f) s"
  using assms failure_None_reads[of fw s c]
  by (cases "failure fw s c") (simp_all add: holds_def bindE_def call_def)

lemma holds_call_bool:
  assumes "\<And>e. failure fw s c = Some e \<Longrightarrow> Q (Inl e) (s\<lparr>trace := trace s @ [c]\<rparr>)"
      and "reads c \<subseteq> files s \<Longrightarrow>
             holds Q (f (bool_result fw (trace s @ [c]))) (effect c (s\<lparr>trace := trace s @ [c]\<rparr>))"
  shows "holds Q (bindE (call_bool fw c) f) s"
  using assms failure_None_reads[of fw s c]
  by (cases "failure fw s c")
     (simp_all add: holds_def bindE_def call_def call_bool_def trace_effect)

lemma holds_call_int:
  assumes "\<And>e. failure fw s c = Some e \<Longrightarrow> Q (Inl e) (s\<lparr>trace := trace s @ [c]\<rparr>)"
      and "reads c \<subseteq> files s \<Longrightarrow>
             holds Q (f (int_result fw (trace s @ [c]))) (effect c (s\<lparr>trace := trace s @ [c]\<rparr>))"
  shows "holds Q (bindE (call_int fw c) f) s"
  using assms failure_None_reads[of fw s c]
  by (cases "failure fw s c")
     (simp_all add: holds_def bindE_def call_def call_int_def trace_effect)

lemma holds_call_float:
  assumes "\<And>e. failure fw s c = Some e \<Longrightarrow> Q (Inl e) (s\<lparr>trace := trace s @ [c]\<rparr>)"
      and "reads c \<subseteq> files s \<Longrightarrow>
             holds Q (f (float_result fw (trace s @ [c]))) (effect c (s\<lparr>trace := trace s @ [c]\<rparr>))"
  shows "holds Q (bindE (call_float fw c) f) s"
  using assms failure_None_reads[of fw s c]
  by (cases "failure fw s c")
     (simp_all add: holds_def bindE_def call_def call_float_def trace_effect)

lemma holds_call_new:
  assumes "\<And>e. failure fw s c = Some e \<Longrightarrow> Q (Inl e) (s\<lparr>trace := trace s @ [c]\<rparr>)"
      and "reads c \<subseteq> files s \<Longrightarrow>
             holds Q (f (length (trace s))) (effect c (s\<lparr>trace := trace s @ [c]\<rparr>))"
  shows "holds Q (bindE (call_new fw c) f) s"
  using assms failure_None_reads[of fw s c]
  by (cases "failure fw s c")
     (simp_all add: holds_def bindE_def call_def call_new_def ret_def)

lemma holds_assert:
  assumes "\<not> b \<Longrightarrow> Q (Inl AssertionError) s" and "b \<Longrightarrow> holds Q (f ()) s"
  shows "holds Q (bindE (assert b) f) s"
  using assms by (cases b) (simp_all add: holds_def bindE_def assert_def ret_def raise_def)

lemma holds_emit:
  assumes "holds Q (f ()) (s\<lparr>trace := trace s @ [c]\<rparr>)"
  shows "holds Q (bindE (emit c) f) s"
  using assms by (simp add: holds_def bindE_def emit_def)

lemmas holds_steps =
  holds_call holds_call_bool holds_call_int holds_call_float holds_call_new holds_assert

lemmas state_simps = effect_def failure_def reads_def

lemma handle_14:
  "p + 14 = Suc (Suc (Suc (Suc (Suc (Suc (Suc (Suc (Suc (Suc (Suc (Suc (Suc (Suc p)))))))))))))"
  by simp

lemma handle_7: "p + 7 = Suc (Suc (Suc (Suc (Suc (Suc (Suc p))))))"
  by simp

lemmas linear_calls_defs = calls_to_assert_def calls_after_assert_def sparsifier_2_4_def handle_14

lemma compare_linear_outcome:
  "holds (linear_outcome fw m k n b ib s) (compare_linear fw m k n b ib) s"
  unfolding compare_linear_def
  apply (rule holds_steps,
         (simp add: linear_outcome_def Let_def linear_calls_defs state_simps; fail),
         (simp add: state_simps)?)+
  apply (simp add: holds_def linear_outcome_def Let_def linear_calls_defs ret_def raise_def
              split: option.splits)
  done

lemma bindE_assoc: "bindE (bindE p g) f = bindE p (\<lambda>x. bindE (g x) f)"
  by (simp add: bindE_def fun_eq_iff split: prod.splits sum.splits)

lemma bindE_memory_report:
  "bindE (memory_report fw label) f =
     bindE (emit (Print plus_line)) (\<lambda>_.
     bindE (call fw (MemoryAllocated label)) (\<lambda>_.
     bindE (call fw MemorySummary) f))"
  by (simp add: memory_report_def bindE_assoc)

lemmas memory_calls_defs = memory_calls_to_assert_def memory_calls_after_assert_def
  memory_calls_to_load_sparse_def memory_calls_to_load_dense_def
  memory_report_calls_def sparsifier_2_4_def handle_7

lemma compare_memory_outcome:
  "holds (memory_outcome fw m k n b s) (compare_memory fw m k n b) s"
  unfolding compare_memory_def bindE_memory_report
  apply ((rule holds_emit
          | (rule holds_steps,
             (simp add: memory_outcome_def Let_def memory_calls_defs state_simps
                   split: if_splits; fail))),
         (simp add: state_simps split: if_splits)?)+
  apply (simp add: holds_def memory_outcome_def Let_def memory_calls_defs ret_def raise_def
              insert_absorb)
  done

section \<open>The claims about the benchmark script\<close>

text \<open>
  C9. Without a \<open>--mode\<close> argument argparse accepts the command line (\<open>args.mode\<close> is
  \<open>None\<close>), no branch of the dispatch binds \<open>results\<close>, and the run ends with a
  \<open>NameError\<close> at \<open>from_records\<close>: the only thing it has done is the first \<open>print\<close>, so no
  file was created and no \<open>to_csv\<close> was called.
\<close>

theorem no_mode_raises_NameError:
  "parse_args None = Inr None \<and>
   main fw None s =
     (Inl (NameError ''results''), s\<lparr>trace := trace s @ [Print ''Started benchmark: None'']\<rparr>) \<and>
   files (snd (main fw None s)) = files s \<and>
   (\<forall>f. ToCsv f \<notin> set (events (main fw None) s))"
  by (simp add: main_def parse_args_def dispatch_def from_records_def bindE_def emit_def ret_def
        raise_def str_mode_def events_def)

lemma linear_facts:
  "linear_outcome fw m k n b ib s (fst (compare_linear fw m k n b ib s))
     (snd (compare_linear fw m k n b ib s))"
  using compare_linear_outcome[of fw m k n b ib s] by (simp add: holds_def)

lemma memory_facts:
  "memory_outcome fw m k n b s (fst (compare_memory fw m k n b s))
     (snd (compare_memory fw m k n b s))"
  using compare_memory_outcome[of fw m k n b s] by (simp add: holds_def)

lemma events_linear_take:
  "events (compare_linear fw m k n b ib) s =
     take (length (events (compare_linear fw m k n b ib) s))
       (calls_to_assert (length (trace s)) m k n b ib @ calls_after_assert (length (trace s)) k n b)"
  using linear_facts[of fw m k n b ib s]
  unfolding linear_outcome_def Let_def events_def by blast

lemma events_memory_take:
  "events (compare_memory fw m k n b) s =
     take (length (events (compare_memory fw m k n b) s))
       (memory_calls_to_assert (length (trace s)) m k n b @ memory_calls_after_assert)"
  using memory_facts[of fw m k n b s]
  unfolding memory_outcome_def Let_def events_def by blast

lemma in_take_set: "x \<in> set ys \<Longrightarrow> ys = take j xs \<Longrightarrow> x \<in> set xs"
  by (metis in_set_takeD)

text \<open>
  C8. Every \<open>WeightNormSparsifier\<close> that compare\_linear or compare\_memory constructs, in
  any run (complete or cut short by an exception), has \<open>sparsity_level = 1.0\<close>,
  \<open>sparse_block_shape = (1, 4)\<close> and \<open>zeros_per_block = 2\<close>: of the four weights of a block
  two are zero and two are not.
\<close>

theorem sparsifiers_are_2_of_4:
  assumes "SparsifierInit cfg \<in> set (events (compare_linear fw m k n b ib) s) \<or>
           SparsifierInit cfg \<in> set (events (compare_memory fw m k n b) s)"
  shows "cfg = sparsifier_2_4 \<and> sparsity_level cfg = 1 \<and> sparse_block_shape cfg = (1, 4) \<and>
         zeros_per_block cfg = 2 \<and>
         fst (sparse_block_shape cfg) * snd (sparse_block_shape cfg) - zeros_per_block cfg = 2"
proof -
  have "cfg = sparsifier_2_4"
    using assms
  proof
    assume "SparsifierInit cfg \<in> set (events (compare_linear fw m k n b ib) s)"
    from in_take_set[OF this events_linear_take]
    show ?thesis by (simp add: calls_to_assert_def calls_after_assert_def)
  next
    assume "SparsifierInit cfg \<in> set (events (compare_memory fw m k n b) s)"
    from in_take_set[OF this events_memory_take]
    show ?thesis
      by (simp add: memory_calls_to_assert_def memory_calls_after_assert_def
            memory_calls_to_load_sparse_def memory_calls_to_load_dense_def memory_report_calls_def)
  qed
  then show ?thesis by (simp add: sparsifier_2_4_def)
qed

section \<open>Running a program on a concrete framework\<close>

lemma run_call:
  "bindE (call fw c) f s =
     (case failure fw s c of
        Some e \<Rightarrow> (Inl e, s\<lparr>trace := trace s @ [c]\<rparr>)
      | None \<Rightarrow> f () (effect c (s\<lparr>trace := trace s @ [c]\<rparr>)))"
  by (simp add: bindE_def call_def split: option.splits)

lemma run_call_bool:
  "bindE (call_bool fw c) f s =
     (case failure fw s c of
        Some e \<Rightarrow> (Inl e, s\<lparr>trace := trace s @ [c]\<rparr>)
      | None \<Rightarrow> f (bool_result fw (trace s @ [c])) (effect c (s\<lparr>trace := trace s @ [c]\<rparr>)))"
  by (simp add: bindE_def call_def call_bool_def trace_effect split: option.splits)

lemma run_call_int:
  "bindE (call_int fw c) f s =
     (case failure fw s c of
        Some e \<Rightarrow> (Inl e, s\<lparr>trace := trace s @ [c]\<rparr>)
      | None \<Rightarrow> f (int_result fw (trace s @ [c])) (effect c (s\<lparr>trace := trace s @ [c]\<rparr>)))"
  by (simp add: bindE_def call_def call_int_def trace_effect split: option.splits)

lemma run_call_float:
  "bindE (call_float fw c) f s =
     (case failure fw s c of
        Some e \<Rightarrow> (Inl e, s\<lparr>trace := trace s @ [c]\<rparr>)
      | None \<Rightarrow> f (float_result fw (trace s @ [c])) (effect c (s\<lparr>trace := trace s @ [c]\<rparr>)))"
  by (simp add: bindE_def call_def call_float_def trace_effect split: option.splits)

lemma run_call_new:
  "bindE (call_new fw c) f s =
     (case failure fw s c of
        Some e \<Rightarrow> (Inl e, s\<lparr>trace := trace s @ [c]\<rparr>)
      | None \<Rightarrow> f (length (trace s)) (effect c (s\<lparr>trace := trace s @ [c]\<rparr>)))"
  by (simp add: bindE_def call_def call_new_def ret_def split: option.splits)

lemma run_assert:
  "bindE (assert b) f s = (if b then f () s else (Inl AssertionError, s))"
  by (simp add: bindE_def assert_def ret_def raise_def)

lemma run_emit: "bindE (emit c) f s = f () (s\<lparr>trace := trace s @ [c]\<rparr>)"
  by (simp add: bindE_def emit_def)

lemma run_ret: "bindE (ret x) f s = f x s"
  by (simp add: bindE_def ret_def)

lemmas run_simps = run_call run_call_bool run_call_int run_call_float run_call_new run_assert
  run_emit run_ret state_simps

lemma compare_linear_fw_ok:
  "compare_linear fw_ok m k n b ib \<lparr>trace = h, files = F\<rparr> =
     (Inr \<lparr>lr_m = m, lr_k = k, lr_n = n, lr_eval_batch_size = b,
           lr_init_batch_size = init_or_batch ib b, lr_alg_id = 7,
           lr_sparse_latency_ms = 2000, lr_dense_latency_ms = 2000, lr_speedup = 1\<rparr>,
      \<lparr>trace = h @ calls_to_assert (length h) m k n b ib @ calls_after_assert (length h) k n b,
       files = F\<rparr>)"
  by (simp add: compare_linear_def run_simps fw_ok_def linear_calls_defs ret_def)

lemma compare_linear_fw_far:
  "compare_linear fw_far m k n b ib \<lparr>trace = h, files = F\<rparr> =
     (Inl AssertionError, \<lparr>trace = h @ calls_to_assert (length h) m k n b ib, files = F\<rparr>)"
  by (simp add: compare_linear_def run_simps fw_far_def fw_ok_def linear_calls_defs)

lemma compare_memory_fresh:
  "compare_memory fw_ok m k n b fresh =
     (Inl (FileNotFoundError ''sparse_model.pt''),
      \<lparr>trace = memory_calls_to_load_sparse m k n b, files = {}\<rparr>)"
  by (simp add: compare_memory_def bindE_memory_report run_simps fw_ok_def fresh_def
        memory_calls_defs)

theorem sparsifiers_are_2_of_4_witness:
  "SparsifierInit sparsifier_2_4 \<in> set (events (compare_linear fw_ok 3072 1024 16384 1 None) fresh) \<and>
   sparsity_level sparsifier_2_4 = 1 \<and> sparse_block_shape sparsifier_2_4 = (1, 4) \<and>
   zeros_per_block sparsifier_2_4 = 2 \<and>
   fst (sparse_block_shape sparsifier_2_4) * snd (sparse_block_shape sparsifier_2_4)
     - zeros_per_block sparsifier_2_4 = 2"
proof -
  have h: "SparsifierInit sparsifier_2_4
             \<in> set (events (compare_linear fw_ok 3072 1024 16384 1 None) fresh)"
    by (simp add: events_def fresh_def compare_linear_fw_ok calls_to_assert_def)
  from sparsifiers_are_2_of_4[OF disjI1[OF h]] h show ?thesis by simp
qed

lemma linear_unfolded:
  "let new = events (compare_linear fw m k n b ib) s;
       r = fst (compare_linear fw m k n b ib s);
       pre = calls_to_assert (length (trace s)) m k n b ib;
       post = calls_after_assert (length (trace s)) k n b;
       h = trace s @ pre
   in new = take (length new) (pre @ post) \<and>
      (length pre < length new \<longrightarrow> bool_result fw h) \<and>
      (\<forall>row. r = Inr row \<longrightarrow>
         new = pre @ post \<and> bool_result fw h \<and>
         fdiv fw (float_result fw (h @ take 4 post)) (float_result fw (h @ take 3 post))
           = Some (lr_speedup row) \<and>
         lr_sparse_latency_ms row = fmul fw (float_result fw (h @ take 3 post)) 1000 \<and>
         lr_dense_latency_ms row = fmul fw (float_result fw (h @ take 4 post)) 1000 \<and>
         lr_alg_id row = int_result fw (h @ take 1 post) \<and>
         (lr_m row, lr_k row, lr_n row, lr_eval_batch_size row) = (m, k, n, b)) \<and>
      (\<forall>e. r = Inl e \<longrightarrow>
         new \<noteq> [] \<and>
         (raises fw (trace s @ butlast new) (last new) = Some e \<or>
          e = AssertionError \<and> new = pre \<and> \<not> bool_result fw h \<or>
          e = ZeroDivisionError \<and> new = pre @ post \<and>
          fdiv fw (float_result fw (h @ take 4 post)) (float_result fw (h @ take 3 post)) = None))"
proof -
  note F = linear_facts[of fw m k n b ib s, unfolded linear_outcome_def Let_def,
      folded events_def]
  show ?thesis
  proof (cases "fst (compare_linear fw m k n b ib s)")
    case (Inl e)
    from F[unfolded Inl] show ?thesis
      unfolding Let_def Inl by (simp only: sum.case sum.inject sum.distinct simp_thms; blast)
  next
    case (Inr row)
    from F[unfolded Inr] show ?thesis
      unfolding Let_def Inr
      by (cases row) (simp only: sum.case sum.inject sum.distinct simp_thms; simp)
  qed
qed

lemma memory_unfolded:
  "let new = events (compare_memory fw m k n b) s;
       r = fst (compare_memory fw m k n b s);
       s' = snd (compare_memory fw m k n b s);
       to_sparse = memory_calls_to_load_sparse m k n b;
       to_dense = memory_calls_to_load_dense m k n b;
       pre = memory_calls_to_assert (length (trace s)) m k n b;
       post = memory_calls_after_assert;
       h = trace s @ pre
   in trace s' = trace s @ new \<and>
      new = take (length new) (pre @ post) \<and>
      (length to_sparse < length new \<longrightarrow> ''sparse_model.pt'' \<in> files s) \<and>
      (length to_dense < length new \<longrightarrow> ''dense_model.pt'' \<in> files s) \<and>
      (length new \<le> length pre + 2 \<longrightarrow> files s' = files s) \<and>
      (length pre < length new \<longrightarrow> bool_result fw h) \<and>
      (\<forall>row. r = Inr row \<longrightarrow>
         new = pre @ post \<and> files s' = files s \<and>
         (mr_m row, mr_k row, mr_n row, mr_eval_batch_size row) = (m, k, n, b)) \<and>
      (\<forall>e. r = Inl e \<longrightarrow>
         new \<noteq> [] \<and>
         (raises fw (trace s @ butlast new) (last new) = Some e \<or>
          e = FileNotFoundError ''sparse_model.pt'' \<and> ''sparse_model.pt'' \<notin> files s \<and>
            new = to_sparse \<or>
          e = FileNotFoundError ''dense_model.pt'' \<and> ''dense_model.pt'' \<notin> files s \<and>
            new = to_dense \<or>
          e = AssertionError \<and> new = pre \<and> \<not> bool_result fw h))"
proof -
  note F = memory_facts[of fw m k n b s, unfolded memory_outcome_def Let_def,
      folded events_def]
  show ?thesis
  proof (cases "fst (compare_memory fw m k n b s)")
    case (Inl e)
    from F[unfolded Inl] show ?thesis
      unfolding Let_def Inl by (simp only: sum.case sum.inject sum.distinct simp_thms; blast)
  next
    case (Inr row)
    from F[unfolded Inr] show ?thesis
      unfolding Let_def Inr
      by (cases row) (simp only: sum.case sum.inject sum.distinct simp_thms; simp)
  qed
qed

lemma length_calls_to_assert [simp]: "length (calls_to_assert p m k n b ib) = 13"
  by (simp add: calls_to_assert_def)

lemma length_calls_after_assert [simp]: "length (calls_after_assert p k n b) = 8"
  by (simp add: calls_after_assert_def)

lemma no_timing_before_assert:
  "BlockedAutorange kind t \<notin> set (calls_to_assert p m k n b ib)"
  by (simp add: calls_to_assert_def)



text \<open>
  A run of compare\_linear or compare\_memory that ends in an exception ends at the call that
  raised it, or at the closeness assertion right after \<open>torch.allclose\<close> answered false, or
  (compare\_linear only) at the division of the two medians.
\<close>

lemma error_has_cause:
  "(fst (compare_linear fw m k n b ib s) = Inl e \<longrightarrow>
      trace (snd (compare_linear fw m k n b ib s)) =
        trace s @ events (compare_linear fw m k n b ib) s \<and>
      events (compare_linear fw m k n b ib) s \<noteq> [] \<and>
      (raises fw (trace s @ butlast (events (compare_linear fw m k n b ib) s))
         (last (events (compare_linear fw m k n b ib) s)) = Some e \<or>
       e = AssertionError \<and>
         events (compare_linear fw m k n b ib) s = calls_to_assert (length (trace s)) m k n b ib \<and>
         \<not> bool_result fw (trace s @ calls_to_assert (length (trace s)) m k n b ib) \<or>
       e = ZeroDivisionError \<and>
         events (compare_linear fw m k n b ib) s =
           calls_to_assert (length (trace s)) m k n b ib @
           calls_after_assert (length (trace s)) k n b)) \<and>
   (fst (compare_memory fw m k n b s) = Inl e \<longrightarrow>
      trace (snd (compare_memory fw m k n b s)) =
        trace s @ events (compare_memory fw m k n b) s \<and>
      events (compare_memory fw m k n b) s \<noteq> [] \<and>
      (raises fw (trace s @ butlast (events (compare_memory fw m k n b) s))
         (last (events (compare_memory fw m k n b) s)) = Some e \<or>
       e = FileNotFoundError ''sparse_model.pt'' \<and> ''sparse_model.pt'' \<notin> files s \<and>
         events (compare_memory fw m k n b) s = memory_calls_to_load_sparse m k n b \<or>
       e = FileNotFoundError ''dense_model.pt'' \<and> ''dense_model.pt'' \<notin> files s \<and>
         events (compare_memory fw m k n b) s = memory_calls_to_load_dense m k n b \<or>
       e = AssertionError \<and>
         events (compare_memory fw m k n b) s = memory_calls_to_assert (length (trace s)) m k n b \<and>
         \<not> bool_result fw (trace s @ memory_calls_to_assert (length (trace s)) m k n b)))"
proof -
  note L = linear_unfolded[of fw m k n b ib s, unfolded Let_def]
  note LT = linear_facts[of fw m k n b ib s, unfolded linear_outcome_def Let_def,
      folded events_def]
  note M = memory_unfolded[of fw m k n b s, unfolded Let_def]
  have lt: "trace (snd (compare_linear fw m k n b ib s)) =
        trace s @ events (compare_linear fw m k n b ib) s"
    using LT by (elim conjE)
  have mt: "trace (snd (compare_memory fw m k n b s)) =
        trace s @ events (compare_memory fw m k n b) s"
    using M by (elim conjE)
  have le: "\<forall>e. fst (compare_linear fw m k n b ib s) = Inl e \<longrightarrow>
         events (compare_linear fw m k n b ib) s \<noteq> [] \<and>
         (raises fw (trace s @ butlast (events (compare_linear fw m k n b ib) s))
            (last (events (compare_linear fw m k n b ib) s)) = Some e \<or>
          e = AssertionError \<and>
            events (compare_linear fw m k n b ib) s =
              calls_to_assert (length (trace s)) m k n b ib \<and>
            \<not> bool_result fw (trace s @ calls_to_assert (length (trace s)) m k n b ib) \<or>
          e = ZeroDivisionError \<and>
            events (compare_linear fw m k n b ib) s =
              calls_to_assert (length (trace s)) m k n b ib @
              calls_after_assert (length (trace s)) k n b \<and>
            fdiv fw
              (float_result fw ((trace s @ calls_to_assert (length (trace s)) m k n b ib) @
                 take 4 (calls_after_assert (length (trace s)) k n b)))
              (float_result fw ((trace s @ calls_to_assert (length (trace s)) m k n b ib) @
                 take 3 (calls_after_assert (length (trace s)) k n b))) = None)"
    using L by (elim conjE)
  have me: "\<forall>e. fst (compare_memory fw m k n b s) = Inl e \<longrightarrow>
      events (compare_memory fw m k n b) s \<noteq> [] \<and>
      (raises fw (trace s @ butlast (events (compare_memory fw m k n b) s))
         (last (events (compare_memory fw m k n b) s)) = Some e \<or>
       e = FileNotFoundError ''sparse_model.pt'' \<and> ''sparse_model.pt'' \<notin> files s \<and>
         events (compare_memory fw m k n b) s = memory_calls_to_load_sparse m k n b \<or>
       e = FileNotFoundError ''dense_model.pt'' \<and> ''dense_model.pt'' \<notin> files s \<and>
         events (compare_memory fw m k n b) s = memory_calls_to_load_dense m k n b \<or>
       e = AssertionError \<and>
         events (compare_memory fw m k n b) s = memory_calls_to_assert (length (trace s)) m k n b \<and>
         \<not> bool_result fw (trace s @ memory_calls_to_assert (length (trace s)) m k n b))"
    using M by (elim conjE)
  show ?thesis
  proof (intro conjI impI)
    assume a: "fst (compare_linear fw m k n b ib s) = Inl e"
    show "trace (snd (compare_linear fw m k n b ib s)) =
        trace s @ events (compare_linear fw m k n b ib) s" by (rule lt)
    from le a show "events (compare_linear fw m k n b ib) s \<noteq> []" by blast
    from le[rule_format, OF a]
    show "raises fw (trace s @ butlast (events (compare_linear fw m k n b ib) s))
         (last (events (compare_linear fw m k n b ib) s)) = Some e \<or>
       e = AssertionError \<and>
         events (compare_linear fw m k n b ib) s = calls_to_assert (length (trace s)) m k n b ib \<and>
         \<not> bool_result fw (trace s @ calls_to_assert (length (trace s)) m k n b ib) \<or>
       e = ZeroDivisionError \<and>
         events (compare_linear fw m k n b ib) s =
           calls_to_assert (length (trace s)) m k n b ib @
           calls_after_assert (length (trace s)) k n b"
      by (elim conjE disjE) simp_all
  next
    assume a: "fst (compare_memory fw m k n b s) = Inl e"
    show "trace (snd (compare_memory fw m k n b s)) =
        trace s @ events (compare_memory fw m k n b) s" by (rule mt)
    from me[rule_format, OF a] show "events (compare_memory fw m k n b) s \<noteq> []"
      by (elim conjE)
    from me[rule_format, OF a]
    show "raises fw (trace s @ butlast (events (compare_memory fw m k n b) s))
         (last (events (compare_memory fw m k n b) s)) = Some e \<or>
       e = FileNotFoundError ''sparse_model.pt'' \<and> ''sparse_model.pt'' \<notin> files s \<and>
         events (compare_memory fw m k n b) s = memory_calls_to_load_sparse m k n b \<or>
       e = FileNotFoundError ''dense_model.pt'' \<and> ''dense_model.pt'' \<notin> files s \<and>
         events (compare_memory fw m k n b) s = memory_calls_to_load_dense m k n b \<or>
       e = AssertionError \<and>
         events (compare_memory fw m k n b) s = memory_calls_to_assert (length (trace s)) m k n b \<and>
         \<not> bool_result fw (trace s @ memory_calls_to_assert (length (trace s)) m k n b)"
      by (elim conjE)
  qed
qed

lemma length_memory_calls [simp]:
  "length (memory_calls_to_load_sparse m k n b) = 20"
  "length (memory_calls_to_load_dense m k n b) = 27"
  "length (memory_calls_to_assert p m k n b) = 38"
  "length memory_calls_after_assert = 8"
  by (simp_all add: memory_calls_defs)

lemma take_memory_calls:
  "take 20 (memory_calls_to_assert p m k n b @ memory_calls_after_assert) =
     memory_calls_to_load_sparse m k n b"
  "take 27 (memory_calls_to_assert p m k n b @ memory_calls_after_assert) =
     memory_calls_to_load_dense m k n b"
  "take 20 (memory_calls_to_assert p m k n b) = memory_calls_to_load_sparse m k n b"
  "take 27 (memory_calls_to_assert p m k n b) = memory_calls_to_load_dense m k n b"
  by (simp_all add: memory_calls_defs)

lemma no_write_before_loads:
  "ToCsv f \<notin> set (memory_calls_to_assert p m k n b @ memory_calls_after_assert)"
  "TorchSave kind f \<notin> set (memory_calls_to_load_dense m k n b)"
  by (simp_all add: memory_calls_defs)

lemma in_short_take:
  assumes "x \<in> set new" and "new = take (length new) xs" and "length new \<le> i"
  shows "x \<in> set (take i xs)"
proof -
  from assms(2,3) have "new = take (length new) (take i xs)" by (simp add: min_def)
  with assms(1) show ?thesis by (metis in_set_takeD)
qed

lemma memory_needs_files:
  assumes "fst (compare_memory fw m k n b s) = Inr row"
  shows "''sparse_model.pt'' \<in> files s \<and> ''dense_model.pt'' \<in> files s"
proof -
  note M = memory_unfolded[of fw m k n b s, unfolded Let_def]
  from M have "\<forall>row. fst (compare_memory fw m k n b s) = Inr row \<longrightarrow>
      events (compare_memory fw m k n b) s =
        memory_calls_to_assert (length (trace s)) m k n b @ memory_calls_after_assert \<and>
      files (snd (compare_memory fw m k n b s)) = files s \<and>
      (mr_m row, mr_k row, mr_n row, mr_eval_batch_size row) = (m, k, n, b)"
    by (elim conjE)
  from this[rule_format, OF assms] have "events (compare_memory fw m k n b) s =
      memory_calls_to_assert (length (trace s)) m k n b @ memory_calls_after_assert"
    by (elim conjE)
  then have len: "length (events (compare_memory fw m k n b) s) = 46" by simp
  from M have sp: "length (memory_calls_to_load_sparse m k n b)
        < length (events (compare_memory fw m k n b) s) \<longrightarrow> ''sparse_model.pt'' \<in> files s"
    by (elim conjE)
  from M have dn: "length (memory_calls_to_load_dense m k n b)
        < length (events (compare_memory fw m k n b) s) \<longrightarrow> ''dense_model.pt'' \<in> files s"
    by (elim conjE)
  from sp dn len show ?thesis by simp
qed

lemma memory_missing:
  assumes "''sparse_model.pt'' \<notin> files s \<or> ''dense_model.pt'' \<notin> files s"
  shows "(\<exists>e. fst (compare_memory fw m k n b s) = Inl e) \<and>
         files (snd (compare_memory fw m k n b s)) = files s \<and>
         trace (snd (compare_memory fw m k n b s)) = trace s @ events (compare_memory fw m k n b) s \<and>
         (\<forall>f. ToCsv f \<notin> set (events (compare_memory fw m k n b) s)) \<and>
         (\<forall>kind f. TorchSave kind f \<notin> set (events (compare_memory fw m k n b) s))"
proof -
  let ?new = "events (compare_memory fw m k n b) s"
  let ?all = "memory_calls_to_assert (length (trace s)) m k n b @ memory_calls_after_assert"
  note M = memory_unfolded[of fw m k n b s, unfolded Let_def]
  from M have tk: "?new = take (length ?new) ?all"
    by (elim conjE)
  from M have sp: "length (memory_calls_to_load_sparse m k n b) < length ?new \<longrightarrow>
               ''sparse_model.pt'' \<in> files s"
    by (elim conjE)
  from M have dn: "length (memory_calls_to_load_dense m k n b) < length ?new \<longrightarrow>
               ''dense_model.pt'' \<in> files s"
    by (elim conjE)
  from M have fs: "length ?new \<le> length (memory_calls_to_assert (length (trace s)) m k n b) + 2 \<longrightarrow>
               files (snd (compare_memory fw m k n b s)) = files s"
    by (elim conjE)
  from M have tr: "trace (snd (compare_memory fw m k n b s)) = trace s @ ?new"
    by (elim conjE)
  from assms sp dn have short: "length ?new \<le> 27" by auto
  have e: "\<exists>e. fst (compare_memory fw m k n b s) = Inl e"
  proof (cases "fst (compare_memory fw m k n b s)")
    case (Inl e) then show ?thesis by blast
  next
    case (Inr row) from memory_needs_files[OF this] assms show ?thesis by blast
  qed
  from fs short have f: "files (snd (compare_memory fw m k n b s)) = files s" by simp
  have c: "ToCsv f \<notin> set ?new" for f
    using tk no_write_before_loads(1) by (metis in_set_takeD)
  have w: "TorchSave kind f \<notin> set ?new" for kind f
  proof
    assume "TorchSave kind f \<in> set ?new"
    from in_short_take[OF this tk short]
    show False by (simp add: take_memory_calls no_write_before_loads)
  qed
  from e f tr c w show ?thesis by blast
qed

lemma memory_missing_sparse:
  assumes "\<forall>h c. raises fw h c = None" and "''sparse_model.pt'' \<notin> files s"
  shows "fst (compare_memory fw m k n b s) = Inl (FileNotFoundError ''sparse_model.pt'')"
proof -
  let ?new = "events (compare_memory fw m k n b) s"
  note M = memory_unfolded[of fw m k n b s, unfolded Let_def]
  from memory_missing[of s fw m k n b] assms(2)
  obtain e where e: "fst (compare_memory fw m k n b s) = Inl e" by blast
  from M have sp: "length (memory_calls_to_load_sparse m k n b) < length ?new \<longrightarrow>
               ''sparse_model.pt'' \<in> files s" by (elim conjE)
  with assms(2) have short: "length ?new \<le> 20" by auto
  from M have "\<forall>e. fst (compare_memory fw m k n b s) = Inl e \<longrightarrow> ?new \<noteq> [] \<and>
     (raises fw (trace s @ butlast ?new) (last ?new) = Some e \<or>
      e = FileNotFoundError ''sparse_model.pt'' \<and> ''sparse_model.pt'' \<notin> files s \<and>
        ?new = memory_calls_to_load_sparse m k n b \<or>
      e = FileNotFoundError ''dense_model.pt'' \<and> ''dense_model.pt'' \<notin> files s \<and>
        ?new = memory_calls_to_load_dense m k n b \<or>
      e = AssertionError \<and> ?new = memory_calls_to_assert (length (trace s)) m k n b \<and>
        \<not> bool_result fw (trace s @ memory_calls_to_assert (length (trace s)) m k n b))"
    by (elim conjE)
  from this[rule_format, OF e]
  have "raises fw (trace s @ butlast ?new) (last ?new) = Some e \<or>
      e = FileNotFoundError ''sparse_model.pt'' \<and> ''sparse_model.pt'' \<notin> files s \<and>
        ?new = memory_calls_to_load_sparse m k n b \<or>
      e = FileNotFoundError ''dense_model.pt'' \<and> ''dense_model.pt'' \<notin> files s \<and>
        ?new = memory_calls_to_load_dense m k n b \<or>
      e = AssertionError \<and> ?new = memory_calls_to_assert (length (trace s)) m k n b \<and>
        \<not> bool_result fw (trace s @ memory_calls_to_assert (length (trace s)) m k n b)"
    by (elim conjE)
  then have "e = FileNotFoundError ''sparse_model.pt''"
    using assms(1) short by (elim disjE conjE) simp_all
  with e show ?thesis by simp
qed

lemma memory_missing_dense:
  assumes "\<forall>h c. raises fw h c = None" and "''sparse_model.pt'' \<in> files s"
      and "''dense_model.pt'' \<notin> files s"
  shows "fst (compare_memory fw m k n b s) = Inl (FileNotFoundError ''dense_model.pt'')"
proof -
  let ?new = "events (compare_memory fw m k n b) s"
  note M = memory_unfolded[of fw m k n b s, unfolded Let_def]
  from memory_missing[of s fw m k n b] assms(3)
  obtain e where e: "fst (compare_memory fw m k n b s) = Inl e" by blast
  from M have dn: "length (memory_calls_to_load_dense m k n b) < length ?new \<longrightarrow>
               ''dense_model.pt'' \<in> files s" by (elim conjE)
  with assms(3) have short: "length ?new \<le> 27" by auto
  from M have "\<forall>e. fst (compare_memory fw m k n b s) = Inl e \<longrightarrow> ?new \<noteq> [] \<and>
     (raises fw (trace s @ butlast ?new) (last ?new) = Some e \<or>
      e = FileNotFoundError ''sparse_model.pt'' \<and> ''sparse_model.pt'' \<notin> files s \<and>
        ?new = memory_calls_to_load_sparse m k n b \<or>
      e = FileNotFoundError ''dense_model.pt'' \<and> ''dense_model.pt'' \<notin> files s \<and>
        ?new = memory_calls_to_load_dense m k n b \<or>
      e = AssertionError \<and> ?new = memory_calls_to_assert (length (trace s)) m k n b \<and>
        \<not> bool_result fw (trace s @ memory_calls_to_assert (length (trace s)) m k n b))"
    by (elim conjE)
  from this[rule_format, OF e]
  have "raises fw (trace s @ butlast ?new) (last ?new) = Some e \<or>
      e = FileNotFoundError ''sparse_model.pt'' \<and> ''sparse_model.pt'' \<notin> files s \<and>
        ?new = memory_calls_to_load_sparse m k n b \<or>
      e = FileNotFoundError ''dense_model.pt'' \<and> ''dense_model.pt'' \<notin> files s \<and>
        ?new = memory_calls_to_load_dense m k n b \<or>
      e = AssertionError \<and> ?new = memory_calls_to_assert (length (trace s)) m k n b \<and>
        \<not> bool_result fw (trace s @ memory_calls_to_assert (length (trace s)) m k n b)"
    by (elim conjE)
  then have "e = FileNotFoundError ''dense_model.pt''"
    using assms(1,2) short by (elim disjE conjE) simp_all
  with e show ?thesis by simp
qed

lemma bindE_Inl: "fst (p s) = Inl e \<Longrightarrow> bindE p f s = (Inl e, snd (p s))"
  by (cases "p s") (simp add: bindE_def)

lemma dispatch_memory:
  "dispatch fw (Some ''memory'') =
     bindE (compare_memory fw 4096 4096 4096 1) (\<lambda>r. ret (Some (ret [MemoryRow r])))"
  by (simp add: dispatch_def)

lemma main_memory_Inl:
  assumes "fst (compare_memory fw 4096 4096 4096 1
             (s\<lparr>trace := trace s @ [Print ''Started benchmark: memory'']\<rparr>)) = Inl e"
  shows "main fw (Some ''memory'') s =
           (Inl e, snd (compare_memory fw 4096 4096 4096 1
             (s\<lparr>trace := trace s @ [Print ''Started benchmark: memory'']\<rparr>)))"
proof -
  have "main fw (Some ''memory'') s =
      bindE (compare_memory fw 4096 4096 4096 1)
        (\<lambda>r. bindE (ret (Some (ret [MemoryRow r])))
          (\<lambda>results. bindE (ret (str_mode (Some ''memory'') @ ''.csv''))
            (\<lambda>save_file. bindE (from_records fw results)
              (\<lambda>df. bindE (call fw (ToCsv save_file))
                (\<lambda>_. bindE (emit (Print (''Finished benchmark: '' @ str_mode (Some ''memory'') @
                          '' saved results to '' @ save_file)))
                  (\<lambda>_. bindE (call fw GroupbyFirst) (\<lambda>_. ret (save_file, df))))))))
        (s\<lparr>trace := trace s @ [Print ''Started benchmark: memory'']\<rparr>)"
    unfolding main_def
    by (simp add: parse_args_def mode_choices_def dispatch_memory bindE_assoc run_emit
          str_mode_def)
  with bindE_Inl[where p = "compare_memory fw 4096 4096 4096 1"
      and s = "s\<lparr>trace := trace s @ [Print ''Started benchmark: memory'']\<rparr>", OF assms]
  show ?thesis by simp
qed

text \<open>
  C10. compare\_memory loads \<open>sparse_model.pt\<close> and \<open>dense_model.pt\<close> before it saves them:
  a run that returns, and any run that reaches a \<open>torch.save\<close>, started with both files in
  the working directory. When one of them is missing, the memory mode ends in an exception,
  creates no file and calls no \<open>to_csv\<close>; when no framework call raises by itself, that
  exception is the \<open>FileNotFoundError\<close> of the first missing file.
\<close>

theorem memory_mode_needs_saved_models:
  "(fst (compare_memory fw m k n b s) = Inr row \<longrightarrow>
      ''sparse_model.pt'' \<in> files s \<and> ''dense_model.pt'' \<in> files s) \<and>
   (\<forall>kind f. TorchSave kind f \<in> set (events (compare_memory fw m k n b) s) \<longrightarrow>
      ''sparse_model.pt'' \<in> files s \<and> ''dense_model.pt'' \<in> files s) \<and>
   (''sparse_model.pt'' \<notin> files s \<or> ''dense_model.pt'' \<notin> files s \<longrightarrow>
      (\<exists>e. fst (main fw (Some ''memory'') s) = Inl e) \<and>
      files (snd (main fw (Some ''memory'') s)) = files s \<and>
      (\<forall>f. ToCsv f \<notin> set (events (main fw (Some ''memory'')) s))) \<and>
   ((\<forall>h c. raises fw h c = None) \<and> ''sparse_model.pt'' \<notin> files s \<longrightarrow>
      fst (main fw (Some ''memory'') s) = Inl (FileNotFoundError ''sparse_model.pt'')) \<and>
   ((\<forall>h c. raises fw h c = None) \<and> ''sparse_model.pt'' \<in> files s \<and>
      ''dense_model.pt'' \<notin> files s \<longrightarrow>
      fst (main fw (Some ''memory'') s) = Inl (FileNotFoundError ''dense_model.pt''))"
proof -
  let ?s1 = "s\<lparr>trace := trace s @ [Print ''Started benchmark: memory'']\<rparr>"
  let ?run = "compare_memory fw 4096 4096 4096 1 ?s1"
  have files1: "files ?s1 = files s" by simp
  have p1: "fst (compare_memory fw m k n b s) = Inr row \<longrightarrow>
      ''sparse_model.pt'' \<in> files s \<and> ''dense_model.pt'' \<in> files s"
    using memory_needs_files by blast
  have p2: "\<forall>kind f. TorchSave kind f \<in> set (events (compare_memory fw m k n b) s) \<longrightarrow>
      ''sparse_model.pt'' \<in> files s \<and> ''dense_model.pt'' \<in> files s"
    using memory_missing[of s fw m k n b] by blast
  have p3: "(\<exists>e. fst (main fw (Some ''memory'') s) = Inl e) \<and>
      files (snd (main fw (Some ''memory'') s)) = files s \<and>
      (\<forall>f. ToCsv f \<notin> set (events (main fw (Some ''memory'')) s))"
    if miss: "''sparse_model.pt'' \<notin> files s \<or> ''dense_model.pt'' \<notin> files s"
  proof -
    from miss have "''sparse_model.pt'' \<notin> files ?s1 \<or> ''dense_model.pt'' \<notin> files ?s1"
      by simp
    from memory_missing[OF this, of fw 4096 4096 4096 1]
    obtain e where e: "fst ?run = Inl e"
      and f: "files (snd ?run) = files ?s1"
      and tr: "trace (snd ?run) = trace ?s1 @ events (compare_memory fw 4096 4096 4096 1) ?s1"
      and c: "\<forall>f. ToCsv f \<notin> set (events (compare_memory fw 4096 4096 4096 1) ?s1)"
      by blast
    from main_memory_Inl[OF e] have m: "main fw (Some ''memory'') s = (Inl e, snd ?run)" .
    have ev: "events (main fw (Some ''memory'')) s =
        Print ''Started benchmark: memory'' # events (compare_memory fw 4096 4096 4096 1) ?s1"
      by (simp only: events_def[of "main fw (Some ''memory'')"] m snd_conv tr) simp
    from m f c ev show ?thesis by simp
  qed
  have p4: "fst (main fw (Some ''memory'') s) = Inl (FileNotFoundError ''sparse_model.pt'')"
    if "\<forall>h c. raises fw h c = None" "''sparse_model.pt'' \<notin> files s"
  proof -
    from that have "fst ?run = Inl (FileNotFoundError ''sparse_model.pt'')"
      by (intro memory_missing_sparse) simp_all
    from main_memory_Inl[OF this] show ?thesis by simp
  qed
  have p5: "fst (main fw (Some ''memory'') s) = Inl (FileNotFoundError ''dense_model.pt'')"
    if "\<forall>h c. raises fw h c = None" "''sparse_model.pt'' \<in> files s"
       "''dense_model.pt'' \<notin> files s"
  proof -
    from that have "fst ?run = Inl (FileNotFoundError ''dense_model.pt'')"
      by (intro memory_missing_dense) simp_all
    from main_memory_Inl[OF this] show ?thesis by simp
  qed
  from p1 p2 p3 p4 p5 show ?thesis by blast
qed

theorem memory_mode_needs_saved_models_witness:
  "''sparse_model.pt'' \<notin> files fresh \<and>
   fst (main fw_ok (Some ''memory'') fresh) = Inl (FileNotFoundError ''sparse_model.pt'') \<and>
   files (snd (main fw_ok (Some ''memory'') fresh)) = {} \<and>
   (\<forall>f. ToCsv f \<notin> set (events (main fw_ok (Some ''memory'')) fresh))"
proof -
  have a: "\<forall>h c. raises fw_ok h c = None" by (simp add: fw_ok_def)
  have b: "''sparse_model.pt'' \<notin> files fresh" by (simp add: fresh_def)
  have c: "files fresh = {}" by (simp add: fresh_def)
  from memory_mode_needs_saved_models[where fw = fw_ok and s = fresh] a b c
  show ?thesis by simp
qed

section \<open>Runs that return\<close>

lemma bindE_InrE:
  assumes "bindE p f s = (Inr y, s')"
  obtains x s1 where "p s = (Inr x, s1)" and "f x s1 = (Inr y, s')"
  using assms by (auto simp: bindE_def split: prod.splits sum.splits)

lemma bindE_ret: "bindE (ret x) f = f x"
  by (rule ext) (simp add: bindE_def ret_def)

lemma call_Inr:
  assumes "call fw c s = (Inr u, s')"
  shows "s' = effect c (s\<lparr>trace := trace s @ [c]\<rparr>)"
  using assms by (auto simp: call_def split: option.splits)

lemma for_each_shapes:
  assumes "\<And>x s y s'. x \<in> set xs \<Longrightarrow> f x s = (Inr y, s') \<Longrightarrow> row_shape y = g x"
      and "for_each f xs s = (Inr ys, s')"
  shows "map row_shape ys = map g xs"
  using assms
proof (induction xs arbitrary: s ys s')
  case Nil
  then show ?case by (simp add: ret_def)
next
  case (Cons x xs)
  from Cons.prems(2) have "bindE (f x) (\<lambda>y. bindE (for_each f xs) (\<lambda>ys. ret (y # ys))) s = (Inr ys, s')"
    by simp
  then obtain y s1 where fx: "f x s = (Inr y, s1)"
    and rest: "bindE (for_each f xs) (\<lambda>ys. ret (y # ys)) s1 = (Inr ys, s')"
    by (rule bindE_InrE)
  from rest obtain zs s2 where tl: "for_each f xs s1 = (Inr zs, s2)"
    and r: "ret (y # zs) s2 = (Inr ys, s')"
    by (rule bindE_InrE)
  from r have ys: "ys = y # zs" by (simp add: ret_def)
  from Cons.prems(1)[OF _ fx] have hd: "row_shape y = g x" by simp
  from Cons.IH[OF _ tl] Cons.prems(1) have "map row_shape zs = map g xs" by simp
  with hd ys show ?case by simp
qed

lemma linear_row_shape:
  assumes "bindE (compare_linear fw m k n b ib) (\<lambda>r. ret (LinearRow r)) s = (Inr y, s')"
  shows "row_shape y = (m, k, n, b)"
proof -
  from assms obtain r s1 where run: "compare_linear fw m k n b ib s = (Inr r, s1)"
    and y: "ret (LinearRow r) s1 = (Inr y, s')"
    by (rule bindE_InrE)
  from run have "fst (compare_linear fw m k n b ib s) = Inr r" by simp
  with linear_unfolded[of fw m k n b ib s, unfolded Let_def]
  have "(lr_m r, lr_k r, lr_n r, lr_eval_batch_size r) = (m, k, n, b)" by blast
  with y show ?thesis by (auto simp: ret_def)
qed

lemma memory_row_shape:
  assumes "compare_memory fw m k n b s = (Inr r, s')"
  shows "row_shape (MemoryRow r) = (m, k, n, b)"
proof -
  from assms have "fst (compare_memory fw m k n b s) = Inr r" by simp
  with memory_unfolded[of fw m k n b s, unfolded Let_def]
  have "(mr_m r, mr_k r, mr_n r, mr_eval_batch_size r) = (m, k, n, b)" by blast
  then show ?thesis by simp
qed

lemma dtype_row_shape:
  assumes "bindE (compare_dtype fw m k n b d) (\<lambda>r. ret (DtypeRow r)) s = (Inr y, s')"
  shows "row_shape y = (m, k, n, b)"
proof -
  from assms obtain r s1 where run: "compare_dtype fw m k n b d s = (Inr r, s1)"
    and y: "ret (DtypeRow r) s1 = (Inr y, s')"
    by (rule bindE_InrE)
  from run have "(dr_m r, dr_k r, dr_n r, dr_eval_batch_size r) = (m, k, n, b)"
    by (auto simp: compare_dtype_def run_simps ret_def split: option.splits)
  with y show ?thesis by (auto simp: ret_def)
qed

lemma consumed_sweep:
  assumes "from_records fw (Some (for_each f xs)) s = (Inr df, s')"
      and "\<And>x s y s'. x \<in> set xs \<Longrightarrow> f x s = (Inr y, s') \<Longrightarrow> row_shape y = g x"
  shows "map row_shape df = map g xs"
proof -
  from assms(1)
  have "bindE (for_each f xs) (\<lambda>rows. bindE (call fw FromRecords) (\<lambda>_. ret rows)) s = (Inr df, s')"
    by (simp add: from_records_def)
  then obtain rows s1 where run: "for_each f xs s = (Inr rows, s1)"
    and fr: "bindE (call fw FromRecords) (\<lambda>_. ret rows) s1 = (Inr df, s')"
    by (rule bindE_InrE)
  from fr obtain u s2 where "ret rows s2 = (Inr df, s')" by (rule bindE_InrE)
  then have "df = rows" by (simp add: ret_def)
  with for_each_shapes[OF assms(2) run] show ?thesis by simp
qed

lemma consumed_list:
  assumes "from_records fw (Some (ret rows)) s = (Inr df, s')"
  shows "df = rows"
proof -
  from assms
  have "bindE (ret rows) (\<lambda>rows. bindE (call fw FromRecords) (\<lambda>_. ret rows)) s = (Inr df, s')"
    by (simp add: from_records_def)
  then have "bindE (call fw FromRecords) (\<lambda>_. ret rows) s = (Inr df, s')"
    by (simp add: run_ret)
  then obtain u s2 where "ret rows s2 = (Inr df, s')" by (rule bindE_InrE)
  then show ?thesis by (simp add: ret_def)
qed

lemma sweep_rows:
  assumes "given \<in> set mode_choices"
      and "dispatch fw (Some given) s1 = (Inr results, s2)"
      and "from_records fw results s2 = (Inr df, s3)"
  shows "map row_shape df = sweep given"
proof -
  from assms(1) have "given = ''nvidia-bert'' \<or> given = ''nvidia-fixed-k'' \<or>
      given = ''nvidia-fixed-mn'' \<or> given = ''distilbert-shapes'' \<or>
      given = ''alg-id-sweep'' \<or> given = ''int8-fp16-linear'' \<or> given = ''memory''"
    unfolding mode_choices_def by (simp only: list.set insert_iff empty_iff simp_thms)
  then show ?thesis
  proof (elim disjE)
    assume 1: "given = ''nvidia-bert''"
    with assms(2) have "results = Some (for_each
        (\<lambda>(m, k, n). bindE (compare_linear fw m k n 1 None) (\<lambda>r. ret (LinearRow r))) bert_shapes)"
      by (simp add: dispatch_def ret_def)
    with assms(3) have "map row_shape df = map (\<lambda>(m, k, n). (m, k, n, 1)) bert_shapes"
      by (intro consumed_sweep[where fw = fw and s = s2 and s' = s3]) (auto dest: linear_row_shape)
    with 1 show ?thesis by (simp add: sweep_def)
  next
    assume 2: "given = ''nvidia-fixed-k''"
    with assms(2) have "results = Some (for_each
        (\<lambda>mn. bindE (compare_linear fw mn 10240 mn 1 None) (\<lambda>r. ret (LinearRow r))) mn_vals)"
      by (simp add: dispatch_def ret_def)
    with assms(3) have "map row_shape df = map (\<lambda>mn. (mn, 10240, mn, 1)) mn_vals"
      by (intro consumed_sweep[where fw = fw and s = s2 and s' = s3]) (auto dest: linear_row_shape)
    with 2 show ?thesis by (simp add: sweep_def)
  next
    assume 3: "given = ''nvidia-fixed-mn''"
    with assms(2) have "results = Some (for_each
        (\<lambda>k. bindE (compare_linear fw 10240 k 10240 1 None) (\<lambda>r. ret (LinearRow r))) k_vals)"
      by (simp add: dispatch_def ret_def)
    with assms(3) have "map row_shape df = map (\<lambda>k. (10240, k, 10240, 1)) k_vals"
      by (intro consumed_sweep[where fw = fw and s = s2 and s' = s3]) (auto dest: linear_row_shape)
    with 3 show ?thesis by (simp add: sweep_def)
  next
    assume 4: "given = ''distilbert-shapes''"
    with assms(2) have "results = Some (for_each
        (\<lambda>((m, k, n), batch_size).
           bindE (compare_linear fw m k n batch_size None) (\<lambda>r. ret (LinearRow r)))
        (product distilbert_shapes sweep_batch_sizes))"
      by (simp add: dispatch_def ret_def)
    with assms(3) have "map row_shape df =
        map (\<lambda>((m, k, n), batch_size). (m, k, n, batch_size))
          (product distilbert_shapes sweep_batch_sizes)"
      by (intro consumed_sweep[where fw = fw and s = s2 and s' = s3]) (auto dest: linear_row_shape)
    with 4 show ?thesis by (simp add: sweep_def)
  next
    assume 5: "given = ''alg-id-sweep''"
    with assms(2) have "bindE (for_each (\<lambda>(n, batch_size).
                  bindE (compare_linear fw 768 3072 n batch_size None) (\<lambda>r. ret (LinearRow r)))
                (product dim_range alg_batch_sizes)) (\<lambda>results.
        bindE (for_each (\<lambda>(batch_size, init_batch_size).
                  bindE (compare_linear fw 768 3072 96 batch_size (Some init_batch_size))
                    (\<lambda>r. ret (LinearRow r)))
                (product alg_batch_sizes alg_batch_sizes)) (\<lambda>more.
        ret (Some (ret (results @ more))))) s1 = (Inr results, s2)"
      by (simp add: dispatch_def)
    then obtain r1 sa where a: "for_each (\<lambda>(n, batch_size).
                  bindE (compare_linear fw 768 3072 n batch_size None) (\<lambda>r. ret (LinearRow r)))
                (product dim_range alg_batch_sizes) s1 = (Inr r1, sa)"
      and rest: "bindE (for_each (\<lambda>(batch_size, init_batch_size).
                  bindE (compare_linear fw 768 3072 96 batch_size (Some init_batch_size))
                    (\<lambda>r. ret (LinearRow r)))
                (product alg_batch_sizes alg_batch_sizes)) (\<lambda>more.
        ret (Some (ret (r1 @ more)))) sa = (Inr results, s2)"
      by (rule bindE_InrE)
    from rest obtain r2 sb where b: "for_each (\<lambda>(batch_size, init_batch_size).
                  bindE (compare_linear fw 768 3072 96 batch_size (Some init_batch_size))
                    (\<lambda>r. ret (LinearRow r)))
                (product alg_batch_sizes alg_batch_sizes) sa = (Inr r2, sb)"
      and res: "ret (Some (ret (r1 @ r2))) sb = (Inr results, s2)"
      by (rule bindE_InrE)
    from res have "results = Some (ret (r1 @ r2))" by (simp add: ret_def)
    with assms(3) have df: "df = r1 @ r2" by (auto dest: consumed_list)
    have s1: "map row_shape r1 =
        map (\<lambda>(n, batch_size). (768, 3072, n, batch_size)) (product dim_range alg_batch_sizes)"
      by (rule for_each_shapes[OF _ a]) (auto dest: linear_row_shape)
    have s2: "map row_shape r2 =
        map (\<lambda>(batch_size, init_batch_size). (768, 3072, 96, batch_size))
          (product alg_batch_sizes alg_batch_sizes)"
      by (rule for_each_shapes[OF _ b]) (auto dest: linear_row_shape)
    from 5 df s1 s2 show ?thesis by (simp add: sweep_def)
  next
    assume 6: "given = ''int8-fp16-linear''"
    with assms(2) have "results = Some (for_each
        (\<lambda>(batch_size, dtype).
           bindE (compare_dtype fw 768 3072 768 batch_size dtype) (\<lambda>r. ret (DtypeRow r)))
        (product sweep_batch_sizes sweep_dtypes))"
      by (simp add: dispatch_def ret_def)
    with assms(3) have "map row_shape df =
        map (\<lambda>(batch_size, dtype). (768, 3072, 768, batch_size))
          (product sweep_batch_sizes sweep_dtypes)"
      by (intro consumed_sweep[where fw = fw and s = s2 and s' = s3]) (auto dest: dtype_row_shape)
    with 6 show ?thesis by (simp add: sweep_def)
  next
    assume 7: "given = ''memory''"
    with assms(2)
    have "bindE (compare_memory fw 4096 4096 4096 1) (\<lambda>r. ret (Some (ret [MemoryRow r]))) s1
            = (Inr results, s2)"
      by (simp add: dispatch_memory)
    then obtain r sa where run: "compare_memory fw 4096 4096 4096 1 s1 = (Inr r, sa)"
      and res: "ret (Some (ret [MemoryRow r])) sa = (Inr results, s2)"
      by (rule bindE_InrE)
    from res have "results = Some (ret [MemoryRow r])" by (simp add: ret_def)
    with assms(3) have "df = [MemoryRow r]" by (auto dest: consumed_list)
    with memory_row_shape[OF run] 7 show ?thesis by (simp add: sweep_def)
  qed
qed

text \<open>
  C2. A \<open>--mode\<close> value outside the seven choices makes argparse exit before anything runs.
  With a value the run completes only if it is one of the seven; then the rows of the frame
  have the shapes of the fixed sweep of that mode, in order, the file saved is named by the
  mode string followed by \<open>.csv\<close>, that file exists in the end, and the run ends with
  \<open>to_csv\<close> of that name, the closing \<open>print\<close> and the grouped print.
\<close>

theorem mode_selects_sweep_and_csv:
  "(given \<notin> set mode_choices \<longrightarrow> main fw (Some given) s = (Inl (SystemExit 2), s)) \<and>
   (main fw (Some given) s = (Inr (save_file, rows), s') \<longrightarrow>
      given \<in> set mode_choices \<and>
      map row_shape rows = sweep given \<and>
      save_file = given @ ''.csv'' \<and>
      save_file \<in> files s' \<and>
      (\<exists>h. trace s' = h @
         [ToCsv (given @ ''.csv''),
          Print (''Finished benchmark: '' @ given @ '' saved results to '' @ given @ ''.csv''),
          GroupbyFirst]))"
proof (intro conjI impI)
  assume "given \<notin> set mode_choices"
  then show "main fw (Some given) s = (Inl (SystemExit 2), s)"
    by (simp add: main_def parse_args_def raise_def)
next
  assume run: "main fw (Some given) s = (Inr (save_file, rows), s')"
  show mode: "given \<in> set mode_choices"
  proof (rule ccontr)
    assume "given \<notin> set mode_choices"
    then have "main fw (Some given) s = (Inl (SystemExit 2), s)"
      by (simp add: main_def parse_args_def raise_def)
    with run show False by simp
  qed
  let ?s1 = "s\<lparr>trace := trace s @ [Print (''Started benchmark: '' @ given)]\<rparr>"
  let ?done = "Print (''Finished benchmark: '' @ given @ '' saved results to '' @ given @ ''.csv'')"
  from mode run have
    "bindE (dispatch fw (Some given)) (\<lambda>results.
       bindE (from_records fw results) (\<lambda>df.
       bindE (call fw (ToCsv (given @ ''.csv''))) (\<lambda>_.
       bindE (emit ?done) (\<lambda>_.
       bindE (call fw GroupbyFirst) (\<lambda>_. ret (given @ ''.csv'', df)))))) ?s1
     = (Inr (save_file, rows), s')"
    by (simp add: main_def parse_args_def str_mode_def run_emit bindE_ret)
  then obtain results s2 where d: "dispatch fw (Some given) ?s1 = (Inr results, s2)"
    and r2: "bindE (from_records fw results) (\<lambda>df.
       bindE (call fw (ToCsv (given @ ''.csv''))) (\<lambda>_.
       bindE (emit ?done) (\<lambda>_.
       bindE (call fw GroupbyFirst) (\<lambda>_. ret (given @ ''.csv'', df))))) s2
     = (Inr (save_file, rows), s')"
    by (rule bindE_InrE)
  from r2 obtain df s3 where fr: "from_records fw results s2 = (Inr df, s3)"
    and r3: "bindE (call fw (ToCsv (given @ ''.csv''))) (\<lambda>_.
       bindE (emit ?done) (\<lambda>_.
       bindE (call fw GroupbyFirst) (\<lambda>_. ret (given @ ''.csv'', df)))) s3
     = (Inr (save_file, rows), s')"
    by (rule bindE_InrE)
  from r3 obtain u s4 where csv: "call fw (ToCsv (given @ ''.csv'')) s3 = (Inr u, s4)"
    and r4: "bindE (emit ?done) (\<lambda>_.
       bindE (call fw GroupbyFirst) (\<lambda>_. ret (given @ ''.csv'', df))) s4
     = (Inr (save_file, rows), s')"
    by (rule bindE_InrE)
  from r4 have "bindE (call fw GroupbyFirst) (\<lambda>_. ret (given @ ''.csv'', df))
       (s4\<lparr>trace := trace s4 @ [?done]\<rparr>) = (Inr (save_file, rows), s')"
    by (simp add: run_emit)
  then obtain v s6 where grp: "call fw GroupbyFirst (s4\<lparr>trace := trace s4 @ [?done]\<rparr>) = (Inr v, s6)"
    and r6: "ret (given @ ''.csv'', df) s6 = (Inr (save_file, rows), s')"
    by (rule bindE_InrE)
  from r6 have eqs: "save_file = given @ ''.csv''" "rows = df" "s' = s6"
    by (simp_all add: ret_def)
  from call_Inr[OF csv] have s4: "s4 = s3\<lparr>trace := trace s3 @ [ToCsv (given @ ''.csv'')],
      files := insert (given @ ''.csv'') (files s3)\<rparr>"
    by (simp add: effect_def)
  from call_Inr[OF grp] have s6: "s6 = s4\<lparr>trace := trace s4 @ [?done, GroupbyFirst]\<rparr>"
    by (simp add: effect_def)
  from sweep_rows[OF mode d fr] eqs show "map row_shape rows = sweep given" by simp
  from eqs show "save_file = given @ ''.csv''" by simp
  from eqs s4 s6 show "save_file \<in> files s'" by simp
  from eqs s4 s6 have "trace s' = trace s3 @ [ToCsv (given @ ''.csv''), ?done, GroupbyFirst]"
    by simp
  then show "\<exists>h. trace s' = h @ [ToCsv (given @ ''.csv''), ?done, GroupbyFirst]" by blast
qed

lemma run_compare_linear_fw_ok:
  "bindE (compare_linear fw_ok m k n b ib) f \<lparr>trace = h, files = F\<rparr> =
     f \<lparr>lr_m = m, lr_k = k, lr_n = n, lr_eval_batch_size = b,
         lr_init_batch_size = init_or_batch ib b, lr_alg_id = 7,
         lr_sparse_latency_ms = 2000, lr_dense_latency_ms = 2000, lr_speedup = 1\<rparr>
       \<lparr>trace = h @ calls_to_assert (length h) m k n b ib @ calls_after_assert (length h) k n b,
        files = F\<rparr>"
  by (simp add: bindE_def compare_linear_fw_ok)

lemma main_bert_fw_ok:
  "fst (main fw_ok (Some ''nvidia-bert'') fresh) =
     Inr (''nvidia-bert.csv'',
          map (\<lambda>(m, k, n). LinearRow
                 \<lparr>lr_m = m, lr_k = k, lr_n = n, lr_eval_batch_size = 1,
                  lr_init_batch_size = 1, lr_alg_id = 7,
                  lr_sparse_latency_ms = 2000, lr_dense_latency_ms = 2000, lr_speedup = 1\<rparr>)
            bert_shapes)"
  by (simp add: main_def parse_args_def mode_choices_def str_mode_def dispatch_def run_emit
        bindE_ret from_records_def bert_shapes_def fresh_def run_compare_linear_fw_ok
        init_or_batch_def bindE_assoc)
     (simp add: run_call run_emit state_simps fw_ok_def ret_def)

theorem mode_selects_sweep_and_csv_witness:
  "fst (main fw_ok (Some ''nvidia-bert'') fresh) =
     Inr (''nvidia-bert.csv'',
          map (\<lambda>(m, k, n). LinearRow
                 \<lparr>lr_m = m, lr_k = k, lr_n = n, lr_eval_batch_size = 1,
                  lr_init_batch_size = 1, lr_alg_id = 7,
                  lr_sparse_latency_ms = 2000, lr_dense_latency_ms = 2000, lr_speedup = 1\<rparr>)
            bert_shapes) \<and>
   ''nvidia-bert'' \<in> set mode_choices \<and>
   sweep ''nvidia-bert'' =
     [(3072, 1024, 16384, 1), (4096, 1024, 16384, 1), (1024, 1024, 16384, 1), (1024, 4096, 16384, 1)] \<and>
   ''nvidia-bert.csv'' \<in> files (snd (main fw_ok (Some ''nvidia-bert'') fresh)) \<and>
   main fw_ok (Some ''bogus'') fresh = (Inl (SystemExit 2), fresh)"
proof -
  let ?rows = "map (\<lambda>(m, k, n). LinearRow
                 \<lparr>lr_m = m, lr_k = k, lr_n = n, lr_eval_batch_size = 1,
                  lr_init_batch_size = 1, lr_alg_id = 7,
                  lr_sparse_latency_ms = 2000, lr_dense_latency_ms = (2000::int), lr_speedup = 1\<rparr>)
            bert_shapes"
  have run: "main fw_ok (Some ''nvidia-bert'') fresh =
      (Inr (''nvidia-bert.csv'', ?rows), snd (main fw_ok (Some ''nvidia-bert'') fresh))"
    by (rule prod_eqI) (simp_all only: fst_conv snd_conv main_bert_fw_ok)
  have sw: "sweep ''nvidia-bert'' =
     [(3072, 1024, 16384, 1), (4096, 1024, 16384, 1), (1024, 1024, 16384, 1), (1024, 4096, 16384, 1)]"
    by (simp add: sweep_def bert_shapes_def)
  have bogus: "''bogus'' \<notin> set mode_choices" by (simp add: mode_choices_def)
  note good = mode_selects_sweep_and_csv[where fw = fw_ok and given = "''nvidia-bert''"
      and s = fresh and save_file = "''nvidia-bert.csv''" and rows = ?rows
      and s' = "snd (main fw_ok (Some ''nvidia-bert'') fresh)", THEN conjunct2, THEN mp, OF run]
  note bad = mode_selects_sweep_and_csv[where fw = fw_ok and given = "''bogus''" and s = fresh,
      THEN conjunct1, THEN mp, OF bogus]
  from good have mode: "''nvidia-bert'' \<in> set mode_choices" by (rule conjunct1)
  from good have csv: "''nvidia-bert.csv'' \<in> files (snd (main fw_ok (Some ''nvidia-bert'') fresh))"
    by (elim conjE)
  from main_bert_fw_ok mode sw csv bad show ?thesis by (intro conjI)
qed

section \<open>Failing calls end the run\<close>

text \<open>
  \<open>propagating\<close> holds of every statement the script is made of and is kept by sequencing,
  because \<open>bindE\<close> has no branch that continues after an exception. So it holds of the three
  functions and of the script as a whole.
\<close>

lemma replay_Nil [simp]: "replay s [] = s"
  by (simp add: replay_def)

lemma replay_append: "replay s (xs @ ys) = replay (replay s xs) ys"
  by (simp add: replay_def)

lemma replay_single: "replay s [c] = effect c (s\<lparr>trace := trace s @ [c]\<rparr>)"
  by (simp add: replay_def)

lemma trace_replay [simp]: "trace (replay s cs) = trace s @ cs"
  by (induction cs arbitrary: s rule: rev_induct) (simp_all add: replay_append replay_single trace_effect)

lemma propagating_events:
  assumes "propagating fw P p"
  shows "trace (snd (p s)) = trace s @ events p s"
    and "fst (p s) = Inr x \<Longrightarrow> P x"
    and "fst (p s) = Inr x \<Longrightarrow> snd (p s) = replay s (events p s)"
    and "i < length (events p s) \<Longrightarrow> \<not> is_print (events p s ! i) \<Longrightarrow>
           failure fw (replay s (take i (events p s))) (events p s ! i) = Some e \<Longrightarrow>
           fst (p s) = Inl e \<and> Suc i = length (events p s)"
proof -
  from assms obtain evs where
    t: "trace (snd (p s)) = trace s @ evs" and
    r: "\<forall>x. fst (p s) = Inr x \<longrightarrow> P x \<and> snd (p s) = replay s evs" and
    f: "\<forall>i e. i < length evs \<longrightarrow> \<not> is_print (evs ! i) \<longrightarrow>
           failure fw (replay s (take i evs)) (evs ! i) = Some e \<longrightarrow>
           fst (p s) = Inl e \<and> Suc i = length evs"
    unfolding propagating_def by blast
  have ev: "events p s = evs" by (simp add: events_def t)
  show "trace (snd (p s)) = trace s @ events p s" by (simp add: ev t)
  show "fst (p s) = Inr x \<Longrightarrow> P x" using r by blast
  show "fst (p s) = Inr x \<Longrightarrow> snd (p s) = replay s (events p s)" using r ev by blast
  show "i < length (events p s) \<Longrightarrow> \<not> is_print (events p s ! i) \<Longrightarrow>
           failure fw (replay s (take i (events p s))) (events p s ! i) = Some e \<Longrightarrow>
           fst (p s) = Inl e \<and> Suc i = length (events p s)"
    using f unfolding ev by blast
qed

lemma propagating_ret: "P x \<Longrightarrow> propagating fw P (ret x)"
  unfolding propagating_def by (intro allI exI[of _ "[]"]) (simp add: ret_def)

lemma propagating_raise: "propagating fw P (raise e)"
  unfolding propagating_def by (intro allI exI[of _ "[]"]) (simp add: raise_def)

lemma propagating_assert: "propagating fw (\<lambda>_. True) (assert b)"
  unfolding assert_def by (simp add: propagating_ret propagating_raise)

lemma propagating_emit: "is_print c \<Longrightarrow> propagating fw (\<lambda>_. True) (emit c)"
  unfolding propagating_def
  by (intro allI, rule_tac x = "[c]" in exI) (cases c; simp add: emit_def replay_single effect_def)

lemma propagating_call: "propagating fw (\<lambda>_. True) (call fw c)"
  unfolding propagating_def
proof (intro allI)
  fix s
  show "\<exists>evs. trace (snd (call fw c s)) = trace s @ evs \<and>
        (\<forall>x. fst (call fw c s) = Inr x \<longrightarrow> True \<and> snd (call fw c s) = replay s evs) \<and>
        (\<forall>i e. i < length evs \<longrightarrow> \<not> is_print (evs ! i) \<longrightarrow>
           failure fw (replay s (take i evs)) (evs ! i) = Some e \<longrightarrow>
           fst (call fw c s) = Inl e \<and> Suc i = length evs)"
    by (rule exI[of _ "[c]"]) (cases "failure fw s c"; simp add: call_def replay_single trace_effect)
qed

lemma propagating_weaken:
  "propagating fw P p \<Longrightarrow> (\<And>x. P x \<Longrightarrow> Q x) \<Longrightarrow> propagating fw Q p"
  unfolding propagating_def by blast

lemma propagating_bindE:
  assumes p: "propagating fw P p" and f: "\<And>x. P x \<Longrightarrow> propagating fw Q (f x)"
  shows "propagating fw Q (bindE p f)"
  unfolding propagating_def
proof (intro allI)
  fix s
  note P = propagating_events[OF p, where s = s]
  show "\<exists>evs. trace (snd (bindE p f s)) = trace s @ evs \<and>
        (\<forall>x. fst (bindE p f s) = Inr x \<longrightarrow> Q x \<and> snd (bindE p f s) = replay s evs) \<and>
        (\<forall>i e. i < length evs \<longrightarrow> \<not> is_print (evs ! i) \<longrightarrow>
           failure fw (replay s (take i evs)) (evs ! i) = Some e \<longrightarrow>
           fst (bindE p f s) = Inl e \<and> Suc i = length evs)"
  proof (cases "fst (p s)")
    case (Inl e)
    then have b: "bindE p f s = (Inl e, snd (p s))"
      by (cases "p s") (simp add: bindE_def)
    show ?thesis
      apply (rule exI[of _ "events p s"])
      using P(1) P(4) Inl by (simp add: b)
  next
    case (Inr x)
    then have b: "bindE p f s = f x (snd (p s))"
      by (cases "p s") (simp add: bindE_def)
    from P(2)[OF Inr] have px: "P x" .
    from P(3)[OF Inr] have s': "snd (p s) = replay s (events p s)" .
    note F = propagating_events[OF f[OF px], where s = "snd (p s)"]
    let ?a = "events p s" and ?b = "events (f x) (snd (p s))"
    have tr: "trace (snd (bindE p f s)) = trace s @ (?a @ ?b)"
      using F(1) P(1) by (simp add: b)
    have ok: "\<forall>y. fst (bindE p f s) = Inr y \<longrightarrow> Q y \<and> snd (bindE p f s) = replay s (?a @ ?b)"
      using F(2) F(3) s' by (simp add: b replay_append)
    have fail: "fst (bindE p f s) = Inl e \<and> Suc i = length (?a @ ?b)"
      if i: "i < length (?a @ ?b)" and np: "\<not> is_print ((?a @ ?b) ! i)"
        and fl: "failure fw (replay s (take i (?a @ ?b))) ((?a @ ?b) ! i) = Some e" for i e
    proof (cases "i < length ?a")
      case True
      with np fl have "fst (p s) = Inl e"
        using P(4)[of i e] by (simp add: nth_append)
      with Inr show ?thesis by simp
    next
      case False
      define j where "j = i - length ?a"
      have j: "j < length ?b" using i False by (simp add: j_def)
      have n: "(?a @ ?b) ! i = ?b ! j" using False by (simp add: nth_append j_def)
      have t: "take i (?a @ ?b) = ?a @ take j ?b" using False by (simp add: j_def)
      have "fst (f x (snd (p s))) = Inl e \<and> Suc j = length ?b"
        using F(4)[of j e] j np fl unfolding n t replay_append s'[symmetric] by simp
      then show ?thesis using False by (auto simp: b j_def)
    qed
    show ?thesis
      apply (rule exI[of _ "?a @ ?b"])
      using tr ok fail by blast
  qed
qed

lemma propagating_call_bool: "propagating fw (\<lambda>_. True) (call_bool fw c)"
  unfolding call_bool_def
  apply (rule propagating_bindE[OF propagating_call])
  unfolding propagating_def by (intro allI, rule_tac x = "[]" in exI) simp

lemma propagating_call_int: "propagating fw (\<lambda>_. True) (call_int fw c)"
  unfolding call_int_def
  apply (rule propagating_bindE[OF propagating_call])
  unfolding propagating_def by (intro allI, rule_tac x = "[]" in exI) simp

lemma propagating_call_float: "propagating fw (\<lambda>_. True) (call_float fw c)"
  unfolding call_float_def
  apply (rule propagating_bindE[OF propagating_call])
  unfolding propagating_def by (intro allI, rule_tac x = "[]" in exI) simp

lemma propagating_call_new: "propagating fw (\<lambda>_. True) (call_new fw c)"
proof -
  have "call_new fw c = bindE (call fw c) (\<lambda>_ s. (Inr (length (trace s) - 1), s))"
    by (auto simp: call_new_def fun_eq_iff bindE_def call_def ret_def trace_effect
          split: option.splits)
  moreover have "propagating fw (\<lambda>_. True) (\<lambda>s. (Inr (length (trace s) - 1), s))"
    unfolding propagating_def by (intro allI, rule_tac x = "[]" in exI) simp
  ultimately show ?thesis
    by (simp add: propagating_bindE[OF propagating_call])
qed

lemmas propagating_calls = propagating_call propagating_call_bool propagating_call_int
  propagating_call_float propagating_call_new propagating_assert

lemma propagating_compare_linear:
  "propagating fw (\<lambda>_. True) (compare_linear fw m k n b ib)"
  unfolding compare_linear_def
  by (intro propagating_bindE[where P = "\<lambda>_. True"] propagating_calls)
     (simp add: propagating_ret propagating_raise split: option.splits)

lemma propagating_memory_report: "propagating fw (\<lambda>_. True) (memory_report fw label)"
  unfolding memory_report_def
  by (intro propagating_bindE[where P = "\<lambda>_. True"] propagating_calls propagating_emit) simp

lemma propagating_compare_memory:
  "propagating fw (\<lambda>_. True) (compare_memory fw m k n b)"
  unfolding compare_memory_def
  by (intro propagating_bindE[where P = "\<lambda>_. True"] propagating_calls propagating_memory_report)
     (simp add: propagating_ret)


lemma propagating_compare_dtype:
  "propagating fw (\<lambda>_. True) (compare_dtype fw m k n b d)"
  unfolding compare_dtype_def
  by (intro propagating_bindE[where P = "\<lambda>_. True"] propagating_calls) (simp add: propagating_ret)

lemma propagating_for_each:
  "(\<And>x. propagating fw (\<lambda>_. True) (f x)) \<Longrightarrow> propagating fw (\<lambda>_. True) (for_each f xs)"
  by (induction xs)
     (auto intro!: propagating_bindE[where P = "\<lambda>_. True"] propagating_ret)

lemma propagating_row:
  "propagating fw (\<lambda>_. True) p \<Longrightarrow> propagating fw (\<lambda>_. True) (bindE p (\<lambda>r. ret (g r)))"
  by (auto intro!: propagating_bindE[where P = "\<lambda>_. True"] propagating_ret)

lemma propagating_dispatch:
  "propagating fw (\<lambda>r. \<forall>sw. r = Some sw \<longrightarrow> propagating fw (\<lambda>_. True) sw) (dispatch fw mode)"
  unfolding dispatch_def
  by (auto intro!: propagating_bindE[where P = "\<lambda>_. True"] propagating_ret propagating_for_each
        propagating_row propagating_compare_linear propagating_compare_memory
        propagating_compare_dtype)

lemma propagating_from_records:
  "\<forall>sw. r = Some sw \<longrightarrow> propagating fw (\<lambda>_. True) sw \<Longrightarrow>
   propagating fw (\<lambda>_. True) (from_records fw r)"
  unfolding from_records_def
  by (cases r)
     (auto intro!: propagating_bindE[where P = "\<lambda>_. True"] propagating_ret propagating_raise
        propagating_calls)

lemma propagating_main: "propagating fw (\<lambda>_. True) (main fw given)"
proof (cases "parse_args given")
  case (Inl e)
  then show ?thesis by (simp add: main_def propagating_raise)
next
  case (Inr mode)
  show ?thesis
    unfolding main_def Inr sum.case
    apply (rule propagating_bindE[where P = "\<lambda>_. True"], rule propagating_emit, simp)
    apply (rule propagating_bindE[OF propagating_dispatch])
    apply (rule propagating_bindE[where P = "\<lambda>_. True"], rule propagating_ret, simp)
    apply (rule propagating_bindE[where P = "\<lambda>_. True"], erule propagating_from_records)
    apply (intro propagating_bindE[where P = "\<lambda>_. True"] propagating_calls propagating_emit
             propagating_ret)
     apply simp_all
    done
qed

lemma no_print_linear:
  assumes "i < length (events (compare_linear fw m k n b ib) s)"
  shows "\<not> is_print (events (compare_linear fw m k n b ib) s ! i)"
proof -
  from assms have "events (compare_linear fw m k n b ib) s ! i
      \<in> set (events (compare_linear fw m k n b ib) s)" by simp
  from in_take_set[OF this events_linear_take]
  show ?thesis by (auto simp: calls_to_assert_def calls_after_assert_def)
qed


lemma failure_linear:
  assumes "i < length (events (compare_linear fw m k n b ib) s)"
  shows "failure fw st (events (compare_linear fw m k n b ib) s ! i) =
         raises fw (trace st) (events (compare_linear fw m k n b ib) s ! i)"
proof -
  from assms have "events (compare_linear fw m k n b ib) s ! i
      \<in> set (events (compare_linear fw m k n b ib) s)" by simp
  from in_take_set[OF this events_linear_take]
  show ?thesis by (auto simp: calls_to_assert_def calls_after_assert_def failure_def)
qed

lemma compare_linear_fw_boom:
  "compare_linear fw_boom m k n b ib \<lparr>trace = h, files = F\<rparr> =
     (Inl (RuntimeError ''boom''),
      \<lparr>trace = h @ take 5 (calls_to_assert (length h) m k n b ib), files = F\<rparr>)"
  by (simp add: compare_linear_def run_simps fw_boom_def fw_ok_def linear_calls_defs)

lemma run_compare_linear_fw_boom:
  "bindE (compare_linear fw_boom m k n b ib) f \<lparr>trace = h, files = F\<rparr> =
     (Inl (RuntimeError ''boom''),
      \<lparr>trace = h @ take 5 (calls_to_assert (length h) m k n b ib), files = F\<rparr>)"
  by (simp add: bindE_def compare_linear_fw_boom)

lemma main_bert_fw_boom:
  "main fw_boom (Some ''nvidia-bert'') fresh =
     (Inl (RuntimeError ''boom''),
      \<lparr>trace = Print ''Started benchmark: nvidia-bert'' #
                 take 5 (calls_to_assert 1 3072 1024 16384 1 None), files = {}\<rparr>)"
  by (simp add: main_def parse_args_def mode_choices_def str_mode_def dispatch_def run_emit
        bindE_ret from_records_def bert_shapes_def fresh_def run_compare_linear_fw_boom
        init_or_batch_def bindE_assoc)




section \<open>The claims about tracing control flow\<close>

lemma trace_cond_raises:
  assumes "map t_meta (tree_flatten (tb mode x)) \<noteq> map t_meta (tree_flatten (fb mode x))"
  shows "trace_cond mode p tb fb x = Inl AssertionError"
proof (cases "length (tree_flatten (tb mode x)) = length (tree_flatten (fb mode x))")
  case False
  then show ?thesis by (simp add: trace_cond_def Let_def)
next
  case True
  with assms obtain i where i: "i < length (tree_flatten (tb mode x))"
    and d: "t_meta (tree_flatten (tb mode x) ! i) \<noteq> t_meta (tree_flatten (fb mode x) ! i)"
    by (auto simp: list_eq_iff_nth_eq)
  from i True have "(tree_flatten (tb mode x) ! i, tree_flatten (fb mode x) ! i)
      \<in> set (zip (tree_flatten (tb mode x)) (tree_flatten (fb mode x)))"
    by (auto simp: set_zip)
  with d have "list_ex (\<lambda>(a, b). t_meta a \<noteq> t_meta b)
      (zip (tree_flatten (tb mode x)) (tree_flatten (fb mode x)))"
    unfolding list_ex_iff by blast
  then show ?thesis by (simp add: trace_cond_def Let_def)
qed

lemma flatten_leaves: "concat (map (tree_flatten \<circ> Leaf) ts) = ts"
  by (induction ts) simp_all

text \<open>
  C6. When the two branches of a \<open>cond\<close> return incompatible outputs, tracing the function
  with \<open>make_fx\<close> ends in \<open>AssertionError\<close>, in the default tracing mode and in the fake
  mode alike, whatever the branches, the operand and the predicate are: in general when the
  outputs differ in number or in the metadata of some tensor; in particular when one branch
  returns a single tensor and the other a tuple of several tensors (or of none), and when
  both return a tensor and the sizes differ. The functions of the four tests are instances:
  a tensor against a pair, and \<open>x.sin()\<close> against \<open>torch.zeros([10, 10])\<close> whenever the two
  differ in size.
\<close>

theorem cond_mismatch_raises:
  "(map t_meta (tree_flatten (tb mode (trace_input mode x))) \<noteq>
      map t_meta (tree_flatten (fb mode (trace_input mode x))) \<longrightarrow>
      make_fx mode (\<lambda>mode x y. trace_cond mode y tb fb x) x y = Inl AssertionError) \<and>
   (length ts \<noteq> 1 \<and>
      (tb mode (trace_input mode x) = Leaf t \<and> fb mode (trace_input mode x) = Tuple (map Leaf ts) \<or>
       tb mode (trace_input mode x) = Tuple (map Leaf ts) \<and> fb mode (trace_input mode x) = Leaf t) \<longrightarrow>
      make_fx mode (\<lambda>mode x y. trace_cond mode y tb fb x) x y = Inl AssertionError) \<and>
   (tb mode (trace_input mode x) = Leaf t \<and> fb mode (trace_input mode x) = Leaf u \<and>
      tm_shape (t_meta t) \<noteq> tm_shape (t_meta u) \<longrightarrow>
      make_fx mode (\<lambda>mode x y. trace_cond mode y tb fb x) x y = Inl AssertionError) \<and>
   make_fx mode (f_mismatch_type ops) x y = Inl AssertionError \<and>
   (tm_shape (t_meta (op_sin ops (trace_input mode x))) \<noteq>
      tm_shape (t_meta (op_zeros ops mode [10, 10])) \<longrightarrow>
      make_fx mode (f_mismatch_size ops) x y = Inl AssertionError)"
proof (intro conjI impI)
  assume "map t_meta (tree_flatten (tb mode (trace_input mode x))) \<noteq>
      map t_meta (tree_flatten (fb mode (trace_input mode x)))"
  then show "make_fx mode (\<lambda>mode x y. trace_cond mode y tb fb x) x y = Inl AssertionError"
    by (simp add: make_fx_def trace_cond_raises)
next
  assume a: "length ts \<noteq> 1 \<and>
      (tb mode (trace_input mode x) = Leaf t \<and> fb mode (trace_input mode x) = Tuple (map Leaf ts) \<or>
       tb mode (trace_input mode x) = Tuple (map Leaf ts) \<and> fb mode (trace_input mode x) = Leaf t)"
  then have "length (tree_flatten (tb mode (trace_input mode x))) \<noteq>
      length (tree_flatten (fb mode (trace_input mode x)))"
    by (auto simp: flatten_leaves)
  then show "make_fx mode (\<lambda>mode x y. trace_cond mode y tb fb x) x y = Inl AssertionError"
    by (simp add: make_fx_def trace_cond_def Let_def)
next
  assume "tb mode (trace_input mode x) = Leaf t \<and> fb mode (trace_input mode x) = Leaf u \<and>
      tm_shape (t_meta t) \<noteq> tm_shape (t_meta u)"
  then show "make_fx mode (\<lambda>mode x y. trace_cond mode y tb fb x) x y = Inl AssertionError"
    by (auto simp: make_fx_def trace_cond_def Let_def)
next
  show "make_fx mode (f_mismatch_type ops) x y = Inl AssertionError"
    by (simp add: make_fx_def f_mismatch_type_def trace_cond_def true_fn_def false_fn_tuple_def)
next
  assume "tm_shape (t_meta (op_sin ops (trace_input mode x))) \<noteq>
      tm_shape (t_meta (op_zeros ops mode [10, 10]))"
  then show "make_fx mode (f_mismatch_size ops) x y = Inl AssertionError"
    by (auto simp: make_fx_def f_mismatch_size_def trace_cond_def true_fn_def false_fn_zeros_def)
qed


theorem cond_mismatch_raises_witness:
  "make_fx Real (f_mismatch_type example_ops) randn_4 tensor_False = Inl AssertionError \<and>
   make_fx Fake (f_mismatch_type example_ops) randn_4 tensor_False = Inl AssertionError \<and>
   tm_shape (t_meta (op_sin example_ops (trace_input Real randn_4))) \<noteq>
     tm_shape (t_meta (op_zeros example_ops Real [10, 10])) \<and>
   make_fx Real (f_mismatch_size example_ops) randn_4 tensor_False = Inl AssertionError \<and>
   tm_shape (t_meta (op_sin example_ops (trace_input Fake randn_4))) \<noteq>
     tm_shape (t_meta (op_zeros example_ops Fake [10, 10])) \<and>
   make_fx Fake (f_mismatch_size example_ops) randn_4 tensor_False = Inl AssertionError \<and>
   true_fn example_ops Fake (trace_input Fake randn_4) =
     Leaf (op_sin example_ops (trace_input Fake randn_4)) \<and>
   false_fn_tuple Fake (trace_input Fake randn_4) =
     Tuple (map Leaf [trace_input Fake randn_4, trace_input Fake randn_4]) \<and>
   length [trace_input Fake randn_4, trace_input Fake randn_4] \<noteq> 1 \<and>
   make_fx Fake (\<lambda>mode x y. trace_cond mode y (true_fn example_ops) false_fn_tuple x)
     randn_4 tensor_False = Inl AssertionError \<and>
   false_fn_zeros example_ops Real (trace_input Real randn_4) =
     Leaf (op_zeros example_ops Real [10, 10]) \<and>
   map t_meta (tree_flatten (true_fn example_ops Real (trace_input Real randn_4))) \<noteq>
     map t_meta (tree_flatten (false_fn_zeros example_ops Real (trace_input Real randn_4))) \<and>
   make_fx Real (\<lambda>mode x y. trace_cond mode y (true_fn example_ops) (false_fn_zeros example_ops) x)
     randn_4 tensor_False = Inl AssertionError \<and>
   false_fn_zeros example_ops Fake (trace_input Fake randn_4) =
     Leaf (op_zeros example_ops Fake [10, 10]) \<and>
   make_fx Fake (\<lambda>mode x y. trace_cond mode y (true_fn example_ops) (false_fn_zeros example_ops) x)
     randn_4 tensor_False = Inl AssertionError"
proof -
  let ?x = "trace_input Fake randn_4"
  have shape: "tm_shape (t_meta (op_sin example_ops (trace_input mode randn_4))) \<noteq>
     tm_shape (t_meta (op_zeros example_ops mode [10, 10]))" for mode
    by (cases mode) (simp_all add: example_ops_def trace_input_def randn_4_def)
  have tf: "true_fn example_ops mode (trace_input mode randn_4) =
     Leaf (op_sin example_ops (trace_input mode randn_4))" for mode
    by (simp add: true_fn_def)
  have ft: "false_fn_tuple Fake ?x = Tuple (map Leaf [?x, ?x])"
    by (simp add: false_fn_tuple_def)
  have fz: "false_fn_zeros example_ops mode (trace_input mode randn_4) =
     Leaf (op_zeros example_ops mode [10, 10])" for mode
    by (simp add: false_fn_zeros_def)
  have two: "length [?x, ?x] \<noteq> 1" by simp
  have metas: "map t_meta (tree_flatten (true_fn example_ops Real (trace_input Real randn_4))) \<noteq>
     map t_meta (tree_flatten (false_fn_zeros example_ops Real (trace_input Real randn_4)))"
    using shape[of Real] by (auto simp: tf fz)
  note type_real = cond_mismatch_raises[where mode = Real and ops = example_ops and x = randn_4
      and y = tensor_False, THEN conjunct2, THEN conjunct2, THEN conjunct2, THEN conjunct1]
  note type_fake = cond_mismatch_raises[where mode = Fake and ops = example_ops and x = randn_4
      and y = tensor_False, THEN conjunct2, THEN conjunct2, THEN conjunct2, THEN conjunct1]
  note size_real = cond_mismatch_raises[where mode = Real and ops = example_ops and x = randn_4
      and y = tensor_False, THEN conjunct2, THEN conjunct2, THEN conjunct2, THEN conjunct2,
      THEN mp, OF shape]
  note size_fake = cond_mismatch_raises[where mode = Fake and ops = example_ops and x = randn_4
      and y = tensor_False, THEN conjunct2, THEN conjunct2, THEN conjunct2, THEN conjunct2,
      THEN mp, OF shape]
  note tuple_fake = cond_mismatch_raises[where mode = Fake and x = randn_4 and y = tensor_False
      and tb = "true_fn example_ops" and fb = false_fn_tuple
      and t = "op_sin example_ops ?x" and ts = "[?x, ?x]",
      THEN conjunct2, THEN conjunct1, THEN mp, OF conjI[OF two disjI1[OF conjI[OF tf ft]]]]
  note general_real = cond_mismatch_raises[where mode = Real and x = randn_4 and y = tensor_False
      and tb = "true_fn example_ops" and fb = "false_fn_zeros example_ops",
      THEN conjunct1, THEN mp, OF metas]
  note leaves_fake = cond_mismatch_raises[where mode = Fake and x = randn_4 and y = tensor_False
      and tb = "true_fn example_ops" and fb = "false_fn_zeros example_ops"
      and t = "op_sin example_ops ?x" and u = "op_zeros example_ops Fake [10, 10]",
      THEN conjunct2, THEN conjunct2, THEN conjunct1, THEN mp, OF conjI[OF tf conjI[OF fz shape]]]
  from type_real type_fake shape[of Real] size_real shape[of Fake] size_fake tf[of Fake] ft two
    tuple_fake fz[of Real] metas general_real fz[of Fake] leaves_fake
  show ?thesis by (intro conjI)
qed

end
